theory Spec2Isabelle
  imports Main
begin

section \<open>Python strings\<close>

text \<open>
  A Python \<open>str\<close> is a sequence of Unicode code points; the model keeps it as a list of
  natural numbers, so that a character outside ASCII is one element, as in Python.
  \<open>str\<close> turns an ASCII literal of the source into that representation.
\<close>

type_synonym pystr = "nat list"

definition str :: "string \<Rightarrow> pystr" where
  "str cs = map of_char cs"

definition startswith :: "pystr \<Rightarrow> pystr \<Rightarrow> bool" where
  "startswith s p = (take (length p) s = p)"

text \<open>\<open>sub in s\<close> on strings: \<open>sub\<close> occurs in \<open>s\<close> as a contiguous piece.\<close>

fun contains :: "pystr \<Rightarrow> pystr \<Rightarrow> bool" where
  "contains [] sub = (sub = [])"
| "contains (c # s) sub = (startswith (c # s) sub \<or> contains s sub)"

text \<open>
  The tables of the Unicode character database (version 14.0.0) that Python's \<open>re\<close>,
  \<open>str\<close> and \<open>int\<close> consult. \<open>uni_decimal_starts\<close> lists the code point of the digit
  zero of every run of ten decimal digits (general category Nd): \<open>\d\<close> on a \<open>str\<close>
  pattern and \<open>int()\<close> accept all of them, not only \<open>0-9\<close>.
\<close>

definition uni_decimal_starts :: "nat list" where
  "uni_decimal_starts = [
   48, 1632, 1776, 1984, 2406, 2534, 2662, 2790, 2918, 3046,
   3174, 3302, 3430, 3558, 3664, 3792, 3872, 4160, 4240, 6112,
   6160, 6470, 6608, 6784, 6800, 6992, 7088, 7232, 7248, 42528,
   43216, 43264, 43472, 43504, 43600, 44016, 65296, 66720, 68912, 69734,
   69872, 69942, 70096, 70384, 70736, 70864, 71248, 71360, 71472, 71904,
   72016, 72784, 73040, 73120, 92768, 92864, 93008, 120782, 120792, 120802,
   120812, 120822, 123200, 123632, 125264, 130032]"

definition uni_decimal_value :: "nat \<Rightarrow> nat option" where
  "uni_decimal_value c =
     (case find (\<lambda>z. z \<le> c \<and> c < z + 10) uni_decimal_starts of
        Some z \<Rightarrow> Some (c - z)
      | None \<Rightarrow> None)"

definition uni_decimal :: "nat \<Rightarrow> bool" where
  "uni_decimal c = (uni_decimal_value c \<noteq> None)"

text \<open>
  \<open>str.isalnum\<close> beyond ASCII, as inclusive ranges of code points. \<open>\w\<close> on a \<open>str\<close>
  pattern is every alphanumeric character and the underscore.
\<close>

definition uni_alnum_ranges :: "(nat \<times> nat) list" where
  "uni_alnum_ranges = [
   (170, 170), (178, 179), (181, 181), (185, 186), (188, 190), (192, 214),
   (216, 246), (248, 705), (710, 721), (736, 740), (748, 748), (750, 750),
   (880, 884), (886, 887), (890, 893), (895, 895), (902, 902), (904, 906),
   (908, 908), (910, 929), (931, 1013), (1015, 1153), (1162, 1327), (1329, 1366),
   (1369, 1369), (1376, 1416), (1488, 1514), (1519, 1522), (1568, 1610), (1632, 1641),
   (1646, 1647), (1649, 1747), (1749, 1749), (1765, 1766), (1774, 1788), (1791, 1791),
   (1808, 1808), (1810, 1839), (1869, 1957), (1969, 1969), (1984, 2026), (2036, 2037),
   (2042, 2042), (2048, 2069), (2074, 2074), (2084, 2084), (2088, 2088), (2112, 2136),
   (2144, 2154), (2160, 2183), (2185, 2190), (2208, 2249), (2308, 2361), (2365, 2365),
   (2384, 2384), (2392, 2401), (2406, 2415), (2417, 2432), (2437, 2444), (2447, 2448),
   (2451, 2472), (2474, 2480), (2482, 2482), (2486, 2489), (2493, 2493), (2510, 2510),
   (2524, 2525), (2527, 2529), (2534, 2545), (2548, 2553), (2556, 2556), (2565, 2570),
   (2575, 2576), (2579, 2600), (2602, 2608), (2610, 2611), (2613, 2614), (2616, 2617),
   (2649, 2652), (2654, 2654), (2662, 2671), (2674, 2676), (2693, 2701), (2703, 2705),
   (2707, 2728), (2730, 2736), (2738, 2739), (2741, 2745), (2749, 2749), (2768, 2768),
   (2784, 2785), (2790, 2799), (2809, 2809), (2821, 2828), (2831, 2832), (2835, 2856),
   (2858, 2864), (2866, 2867), (2869, 2873), (2877, 2877), (2908, 2909), (2911, 2913),
   (2918, 2927), (2929, 2935), (2947, 2947), (2949, 2954), (2958, 2960), (2962, 2965),
   (2969, 2970), (2972, 2972), (2974, 2975), (2979, 2980), (2984, 2986), (2990, 3001),
   (3024, 3024), (3046, 3058), (3077, 3084), (3086, 3088), (3090, 3112), (3114, 3129),
   (3133, 3133), (3160, 3162), (3165, 3165), (3168, 3169), (3174, 3183), (3192, 3198),
   (3200, 3200), (3205, 3212), (3214, 3216), (3218, 3240), (3242, 3251), (3253, 3257),
   (3261, 3261), (3293, 3294), (3296, 3297), (3302, 3311), (3313, 3314), (3332, 3340),
   (3342, 3344), (3346, 3386), (3389, 3389), (3406, 3406), (3412, 3414), (3416, 3425),
   (3430, 3448), (3450, 3455), (3461, 3478), (3482, 3505), (3507, 3515), (3517, 3517),
   (3520, 3526), (3558, 3567), (3585, 3632), (3634, 3635), (3648, 3654), (3664, 3673),
   (3713, 3714), (3716, 3716), (3718, 3722), (3724, 3747), (3749, 3749), (3751, 3760),
   (3762, 3763), (3773, 3773), (3776, 3780), (3782, 3782), (3792, 3801), (3804, 3807),
   (3840, 3840), (3872, 3891), (3904, 3911), (3913, 3948), (3976, 3980), (4096, 4138),
   (4159, 4169), (4176, 4181), (4186, 4189), (4193, 4193), (4197, 4198), (4206, 4208),
   (4213, 4225), (4238, 4238), (4240, 4249), (4256, 4293), (4295, 4295), (4301, 4301),
   (4304, 4346), (4348, 4680), (4682, 4685), (4688, 4694), (4696, 4696), (4698, 4701),
   (4704, 4744), (4746, 4749), (4752, 4784), (4786, 4789), (4792, 4798), (4800, 4800),
   (4802, 4805), (4808, 4822), (4824, 4880), (4882, 4885), (4888, 4954), (4969, 4988),
   (4992, 5007), (5024, 5109), (5112, 5117), (5121, 5740), (5743, 5759), (5761, 5786),
   (5792, 5866), (5870, 5880), (5888, 5905), (5919, 5937), (5952, 5969), (5984, 5996),
   (5998, 6000), (6016, 6067), (6103, 6103), (6108, 6108), (6112, 6121), (6128, 6137),
   (6160, 6169), (6176, 6264), (6272, 6276), (6279, 6312), (6314, 6314), (6320, 6389),
   (6400, 6430), (6470, 6509), (6512, 6516), (6528, 6571), (6576, 6601), (6608, 6618),
   (6656, 6678), (6688, 6740), (6784, 6793), (6800, 6809), (6823, 6823), (6917, 6963),
   (6981, 6988), (6992, 7001), (7043, 7072), (7086, 7141), (7168, 7203), (7232, 7241),
   (7245, 7293), (7296, 7304), (7312, 7354), (7357, 7359), (7401, 7404), (7406, 7411),
   (7413, 7414), (7418, 7418), (7424, 7615), (7680, 7957), (7960, 7965), (7968, 8005),
   (8008, 8013), (8016, 8023), (8025, 8025), (8027, 8027), (8029, 8029), (8031, 8061),
   (8064, 8116), (8118, 8124), (8126, 8126), (8130, 8132), (8134, 8140), (8144, 8147),
   (8150, 8155), (8160, 8172), (8178, 8180), (8182, 8188), (8304, 8305), (8308, 8313),
   (8319, 8329), (8336, 8348), (8450, 8450), (8455, 8455), (8458, 8467), (8469, 8469),
   (8473, 8477), (8484, 8484), (8486, 8486), (8488, 8488), (8490, 8493), (8495, 8505),
   (8508, 8511), (8517, 8521), (8526, 8526), (8528, 8585), (9312, 9371), (9450, 9471),
   (10102, 10131), (11264, 11492), (11499, 11502), (11506, 11507), (11517, 11517), (11520, 11557),
   (11559, 11559), (11565, 11565), (11568, 11623), (11631, 11631), (11648, 11670), (11680, 11686),
   (11688, 11694), (11696, 11702), (11704, 11710), (11712, 11718), (11720, 11726), (11728, 11734),
   (11736, 11742), (11823, 11823), (12293, 12295), (12321, 12329), (12337, 12341), (12344, 12348),
   (12353, 12438), (12445, 12447), (12449, 12538), (12540, 12543), (12549, 12591), (12593, 12686),
   (12690, 12693), (12704, 12735), (12784, 12799), (12832, 12841), (12872, 12879), (12881, 12895),
   (12928, 12937), (12977, 12991), (13312, 19903), (19968, 42124), (42192, 42237), (42240, 42508),
   (42512, 42539), (42560, 42606), (42623, 42653), (42656, 42735), (42775, 42783), (42786, 42888),
   (42891, 42954), (42960, 42961), (42963, 42963), (42965, 42969), (42994, 43009), (43011, 43013),
   (43015, 43018), (43020, 43042), (43056, 43061), (43072, 43123), (43138, 43187), (43216, 43225),
   (43250, 43255), (43259, 43259), (43261, 43262), (43264, 43301), (43312, 43334), (43360, 43388),
   (43396, 43442), (43471, 43481), (43488, 43492), (43494, 43518), (43520, 43560), (43584, 43586),
   (43588, 43595), (43600, 43609), (43616, 43638), (43642, 43642), (43646, 43695), (43697, 43697),
   (43701, 43702), (43705, 43709), (43712, 43712), (43714, 43714), (43739, 43741), (43744, 43754),
   (43762, 43764), (43777, 43782), (43785, 43790), (43793, 43798), (43808, 43814), (43816, 43822),
   (43824, 43866), (43868, 43881), (43888, 44002), (44016, 44025), (44032, 55203), (55216, 55238),
   (55243, 55291), (63744, 64109), (64112, 64217), (64256, 64262), (64275, 64279), (64285, 64285),
   (64287, 64296), (64298, 64310), (64312, 64316), (64318, 64318), (64320, 64321), (64323, 64324),
   (64326, 64433), (64467, 64829), (64848, 64911), (64914, 64967), (65008, 65019), (65136, 65140),
   (65142, 65276), (65296, 65305), (65313, 65338), (65345, 65370), (65382, 65470), (65474, 65479),
   (65482, 65487), (65490, 65495), (65498, 65500), (65536, 65547), (65549, 65574), (65576, 65594),
   (65596, 65597), (65599, 65613), (65616, 65629), (65664, 65786), (65799, 65843), (65856, 65912),
   (65930, 65931), (66176, 66204), (66208, 66256), (66273, 66299), (66304, 66339), (66349, 66378),
   (66384, 66421), (66432, 66461), (66464, 66499), (66504, 66511), (66513, 66517), (66560, 66717),
   (66720, 66729), (66736, 66771), (66776, 66811), (66816, 66855), (66864, 66915), (66928, 66938),
   (66940, 66954), (66956, 66962), (66964, 66965), (66967, 66977), (66979, 66993), (66995, 67001),
   (67003, 67004), (67072, 67382), (67392, 67413), (67424, 67431), (67456, 67461), (67463, 67504),
   (67506, 67514), (67584, 67589), (67592, 67592), (67594, 67637), (67639, 67640), (67644, 67644),
   (67647, 67669), (67672, 67702), (67705, 67742), (67751, 67759), (67808, 67826), (67828, 67829),
   (67835, 67867), (67872, 67897), (67968, 68023), (68028, 68047), (68050, 68096), (68112, 68115),
   (68117, 68119), (68121, 68149), (68160, 68168), (68192, 68222), (68224, 68255), (68288, 68295),
   (68297, 68324), (68331, 68335), (68352, 68405), (68416, 68437), (68440, 68466), (68472, 68497),
   (68521, 68527), (68608, 68680), (68736, 68786), (68800, 68850), (68858, 68899), (68912, 68921),
   (69216, 69246), (69248, 69289), (69296, 69297), (69376, 69415), (69424, 69445), (69457, 69460),
   (69488, 69505), (69552, 69579), (69600, 69622), (69635, 69687), (69714, 69743), (69745, 69746),
   (69749, 69749), (69763, 69807), (69840, 69864), (69872, 69881), (69891, 69926), (69942, 69951),
   (69956, 69956), (69959, 69959), (69968, 70002), (70006, 70006), (70019, 70066), (70081, 70084),
   (70096, 70106), (70108, 70108), (70113, 70132), (70144, 70161), (70163, 70187), (70272, 70278),
   (70280, 70280), (70282, 70285), (70287, 70301), (70303, 70312), (70320, 70366), (70384, 70393),
   (70405, 70412), (70415, 70416), (70419, 70440), (70442, 70448), (70450, 70451), (70453, 70457),
   (70461, 70461), (70480, 70480), (70493, 70497), (70656, 70708), (70727, 70730), (70736, 70745),
   (70751, 70753), (70784, 70831), (70852, 70853), (70855, 70855), (70864, 70873), (71040, 71086),
   (71128, 71131), (71168, 71215), (71236, 71236), (71248, 71257), (71296, 71338), (71352, 71352),
   (71360, 71369), (71424, 71450), (71472, 71483), (71488, 71494), (71680, 71723), (71840, 71922),
   (71935, 71942), (71945, 71945), (71948, 71955), (71957, 71958), (71960, 71983), (71999, 71999),
   (72001, 72001), (72016, 72025), (72096, 72103), (72106, 72144), (72161, 72161), (72163, 72163),
   (72192, 72192), (72203, 72242), (72250, 72250), (72272, 72272), (72284, 72329), (72349, 72349),
   (72368, 72440), (72704, 72712), (72714, 72750), (72768, 72768), (72784, 72812), (72818, 72847),
   (72960, 72966), (72968, 72969), (72971, 73008), (73030, 73030), (73040, 73049), (73056, 73061),
   (73063, 73064), (73066, 73097), (73112, 73112), (73120, 73129), (73440, 73458), (73648, 73648),
   (73664, 73684), (73728, 74649), (74752, 74862), (74880, 75075), (77712, 77808), (77824, 78894),
   (82944, 83526), (92160, 92728), (92736, 92766), (92768, 92777), (92784, 92862), (92864, 92873),
   (92880, 92909), (92928, 92975), (92992, 92995), (93008, 93017), (93019, 93025), (93027, 93047),
   (93053, 93071), (93760, 93846), (93952, 94026), (94032, 94032), (94099, 94111), (94176, 94177),
   (94179, 94179), (94208, 100343), (100352, 101589), (101632, 101640), (110576, 110579), (110581, 110587),
   (110589, 110590), (110592, 110882), (110928, 110930), (110948, 110951), (110960, 111355), (113664, 113770),
   (113776, 113788), (113792, 113800), (113808, 113817), (119520, 119539), (119648, 119672), (119808, 119892),
   (119894, 119964), (119966, 119967), (119970, 119970), (119973, 119974), (119977, 119980), (119982, 119993),
   (119995, 119995), (119997, 120003), (120005, 120069), (120071, 120074), (120077, 120084), (120086, 120092),
   (120094, 120121), (120123, 120126), (120128, 120132), (120134, 120134), (120138, 120144), (120146, 120485),
   (120488, 120512), (120514, 120538), (120540, 120570), (120572, 120596), (120598, 120628), (120630, 120654),
   (120656, 120686), (120688, 120712), (120714, 120744), (120746, 120770), (120772, 120779), (120782, 120831),
   (122624, 122654), (123136, 123180), (123191, 123197), (123200, 123209), (123214, 123214), (123536, 123565),
   (123584, 123627), (123632, 123641), (124896, 124902), (124904, 124907), (124909, 124910), (124912, 124926),
   (124928, 125124), (125127, 125135), (125184, 125251), (125259, 125259), (125264, 125273), (126065, 126123),
   (126125, 126127), (126129, 126132), (126209, 126253), (126255, 126269), (126464, 126467), (126469, 126495),
   (126497, 126498), (126500, 126500), (126503, 126503), (126505, 126514), (126516, 126519), (126521, 126521),
   (126523, 126523), (126530, 126530), (126535, 126535), (126537, 126537), (126539, 126539), (126541, 126543),
   (126545, 126546), (126548, 126548), (126551, 126551), (126553, 126553), (126555, 126555), (126557, 126557),
   (126559, 126559), (126561, 126562), (126564, 126564), (126567, 126570), (126572, 126578), (126580, 126583),
   (126585, 126588), (126590, 126590), (126592, 126601), (126603, 126619), (126625, 126627), (126629, 126633),
   (126635, 126651), (127232, 127244), (130032, 130041), (131072, 173791), (173824, 177976), (177984, 178205),
   (178208, 183969), (183984, 191456), (194560, 195101), (196608, 201546)]"

definition uni_word :: "nat \<Rightarrow> bool" where
  "uni_word c =
     (if c < 128
      then c = 95 \<or> (48 \<le> c \<and> c \<le> 57) \<or> (65 \<le> c \<and> c \<le> 90) \<or> (97 \<le> c \<and> c \<le> 122)
      else list_ex (\<lambda>(lo, hi). lo \<le> c \<and> c \<le> hi) uni_alnum_ranges)"

text \<open>\<open>str.isspace\<close>: what \<open>str.strip()\<close> without arguments removes.\<close>

definition uni_space :: "nat \<Rightarrow> bool" where
  "uni_space c = list_ex (\<lambda>(lo, hi). lo \<le> c \<and> c \<le> hi)
     [(9, 13), (28, 32), (133, 133), (160, 160), (5760, 5760), (8192, 8202),
      (8232, 8233), (8239, 8239), (8287, 8287), (12288, 12288)]"

definition strip :: "pystr \<Rightarrow> pystr" where
  "strip s = rev (dropWhile uni_space (rev (dropWhile uni_space s)))"

text \<open>
  \<open>str.splitlines()\<close>: the line boundaries are \<open>\n\<close>, \<open>\r\<close>, \<open>\r\n\<close>, \<open>\v\<close>, \<open>\f\<close>,
  the separators \<open>\x1c\<close>, \<open>\x1d\<close>, \<open>\x1e\<close>, \<open>\x85\<close>, U+2028 and U+2029; a final
  boundary does not open an empty last line.
\<close>

definition is_linebreak :: "nat \<Rightarrow> bool" where
  "is_linebreak c = ((10 \<le> c \<and> c \<le> 13) \<or> (28 \<le> c \<and> c \<le> 30) \<or> c = 133 \<or> c = 8232 \<or> c = 8233)"

fun splitlines_from :: "pystr \<Rightarrow> pystr \<Rightarrow> pystr list" where
  "splitlines_from cur [] = (if cur = [] then [] else [cur])"
| "splitlines_from cur [c] = (if is_linebreak c then [cur] else [cur @ [c]])"
| "splitlines_from cur (c # d # s) =
     (if c = 13 \<and> d = 10 then cur # splitlines_from [] s
      else if is_linebreak c then cur # splitlines_from [] (d # s)
      else splitlines_from (cur @ [c]) (d # s))"

definition splitlines :: "pystr \<Rightarrow> pystr list" where
  "splitlines s = splitlines_from [] s"

text \<open>\<open>str(n)\<close> for a natural number, as the f-string of the menu needs it.\<close>

fun digits_of :: "nat \<Rightarrow> pystr" where
  "digits_of n = (if n < 10 then [48 + n] else digits_of (n div 10) @ [48 + n mod 10])"

declare digits_of.simps [simp del]

text \<open>
  \<open>s.lower() == 'y'\<close>: \<open>str.lower\<close> maps every character to at least one character, and
  only U+0059 and U+0079 are mapped to \<open>y\<close>.
\<close>

definition lower_is_y :: "pystr \<Rightarrow> bool" where
  "lower_is_y s = (s = [121] \<or> s = [89])"

subsection \<open>\<open>int(s)\<close> on a string\<close>

text \<open>
  \<open>int\<close> first maps the string to ASCII: a character below 127 stays, any other white
  space becomes a blank, any other decimal digit becomes its ASCII digit, and anything else
  makes the literal invalid. The ASCII text is then: white space, an optional sign, digits
  with single underscores between them, white space. From Python 3.11 on a literal of more
  than \<open>limit\<close> digits is refused as well (\<open>limit = 0\<close> switches that off; the runtime
  never applies it to 640 digits or fewer).
\<close>

definition int_ascii :: "nat \<Rightarrow> nat option" where
  "int_ascii c =
     (if c < 127 then Some c
      else if uni_space c then Some 32
      else map_option (\<lambda>v. 48 + v) (uni_decimal_value c))"

definition ascii_space :: "nat \<Rightarrow> bool" where
  "ascii_space c = ((9 \<le> c \<and> c \<le> 13) \<or> c = 32)"

definition ascii_digit :: "nat \<Rightarrow> bool" where
  "ascii_digit c = (48 \<le> c \<and> c \<le> 57)"

fun single_underscores :: "pystr \<Rightarrow> bool" where
  "single_underscores (a # b # s) = (\<not> (a = 95 \<and> b = 95) \<and> single_underscores (b # s))"
| "single_underscores s = True"

definition int_body_ok :: "pystr \<Rightarrow> bool" where
  "int_body_ok b = (b \<noteq> [] \<and> ascii_digit (hd b) \<and> ascii_digit (last b) \<and> single_underscores b)"

definition digits_value :: "pystr \<Rightarrow> nat" where
  "digits_value ds = foldl (\<lambda>a c. 10 * a + (c - 48)) 0 ds"

datatype py_exc =
    ValueError | IndexError | EOFError | FileNotFoundError | PermissionError
  | OSError | UnicodeError | CalledProcessError int

definition py_int :: "nat \<Rightarrow> pystr \<Rightarrow> py_exc + int" where
  "py_int limit s =
     (case those (map int_ascii s) of
        None \<Rightarrow> Inl ValueError
      | Some a \<Rightarrow>
          (let t = dropWhile ascii_space a;
               neg = (t \<noteq> [] \<and> hd t = 45);
               u = (if t \<noteq> [] \<and> (hd t = 45 \<or> hd t = 43) then tl t else t);
               body = takeWhile (\<lambda>c. ascii_digit c \<or> c = 95) u;
               rest = dropWhile (\<lambda>c. ascii_digit c \<or> c = 95) u;
               ds = filter ascii_digit body
           in if \<not> int_body_ok body \<or> \<not> list_all ascii_space rest then Inl ValueError
              else if 640 < length ds \<and> 0 < limit \<and> limit < length ds then Inl ValueError
              else Inr (if neg then - int (digits_value ds) else int (digits_value ds))))"

text \<open>
  \<open>xs[i]\<close> on a list: a negative index counts from the end, and an index outside
  \<open>-len(xs) .. len(xs) - 1\<close> raises \<open>IndexError\<close>.
\<close>

definition py_index :: "'a list \<Rightarrow> int \<Rightarrow> py_exc + 'a" where
  "py_index xs i =
     (if 0 \<le> i \<and> i < int (length xs) then Inr (xs ! nat i)
      else if i < 0 \<and> - int (length xs) \<le> i then Inr (xs ! nat (i + int (length xs)))
      else Inl IndexError)"

section \<open>Regular expressions of the source\<close>

text \<open>
  Every pattern of the program is a fixed sequence of character classes, some anchored or
  followed by a greedy run. \<open>match_seq\<close> matches such a sequence at the start of a string
  and returns what is left; \<open>search_seq\<close> is \<open>re.search\<close> for it: the leftmost
  position where it matches, with the matched text.
\<close>

type_synonym cclass = "nat \<Rightarrow> bool"

fun match_seq :: "cclass list \<Rightarrow> pystr \<Rightarrow> pystr option" where
  "match_seq [] s = Some s"
| "match_seq (p # ps) [] = None"
| "match_seq (p # ps) (c # s) = (if p c then match_seq ps s else None)"

fun search_seq :: "cclass list \<Rightarrow> pystr \<Rightarrow> pystr option" where
  "search_seq ps [] = (if ps = [] then Some [] else None)"
| "search_seq ps (c # s) =
     (case match_seq ps (c # s) of
        Some rest \<Rightarrow> Some (take (length ps) (c # s))
      | None \<Rightarrow> search_seq ps s)"

definition lit :: "nat \<Rightarrow> cclass" where
  "lit a c = (c = a)"

text \<open>The classes \<open>[\da-fA-F]\<close>, \<open>[\da-fA-F:]\<close> and \<open>[\da-fA-F-]\<close>.\<close>

definition re_hex :: cclass where
  "re_hex c = (uni_decimal c \<or> (97 \<le> c \<and> c \<le> 102) \<or> (65 \<le> c \<and> c \<le> 70))"

definition re_hex_colon :: cclass where
  "re_hex_colon c = (re_hex c \<or> c = 58)"

definition re_hex_dash :: cclass where
  "re_hex_dash c = (re_hex c \<or> c = 45)"

text \<open>
  \<open>$\<close> without \<open>re.MULTILINE\<close> matches at the end of the string and also just before
  a newline that is the last character.
\<close>

definition at_dollar :: "pystr \<Rightarrow> bool" where
  "at_dollar rest = (rest = [] \<or> rest = [10])"

text \<open>
  With \<open>re.MULTILINE\<close>, \<open>^\<close> matches at the start of the string and after every
  \<open>\n\<close>; neither \<open>\w\<close> nor \<open>.\<close> matches \<open>\n\<close>, so \<open>re.findall\<close> with a pattern
  that starts with \<open>^\<close> looks at each of these lines once.
\<close>

fun lines_nl :: "pystr \<Rightarrow> pystr list" where
  "lines_nl [] = [[]]"
| "lines_nl (c # s) =
     (if c = 10 then [] # lines_nl s
      else (case lines_nl s of [] \<Rightarrow> [[c]] | l # ls \<Rightarrow> (c # l) # ls))"

text \<open>\<open>re.findall(r'^\w+', output, re.MULTILINE)\<close>.\<close>

definition findall_word :: "pystr \<Rightarrow> pystr list" where
  "findall_word output = filter (\<lambda>t. t \<noteq> []) (map (takeWhile uni_word) (lines_nl output))"

text \<open>
  \<open>re.findall(r'^Ethernet adapter (.+):', output, re.MULTILINE)\<close>: the greedy \<open>.+\<close>
  runs to the last colon of the line and must hold at least one character.
\<close>

definition adapter_name :: "pystr \<Rightarrow> pystr option" where
  "adapter_name line =
     (if startswith line (str ''Ethernet adapter '')
      then (case dropWhile (\<lambda>c. c \<noteq> 58) (rev (drop 17 line)) of
              [] \<Rightarrow> None
            | colon # before \<Rightarrow> if before = [] then None else Some (rev before))
      else None)"

definition findall_adapter :: "pystr \<Rightarrow> pystr list" where
  "findall_adapter output = List.map_filter adapter_name (lines_nl output)"

section \<open>The MAC validator\<close>

text \<open>The pattern \<open>^([\da-fA-F]{2}:){5}[\da-fA-F]{2}$\<close> of \<open>validate_mac\<close>.\<close>

definition mac_pattern :: "cclass list" where
  "mac_pattern = concat (replicate 5 [re_hex, re_hex, lit 58]) @ [re_hex, re_hex]"

definition validate_mac :: "pystr \<Rightarrow> bool" where
  "validate_mac mac =
     (case match_seq mac_pattern mac of
        Some rest \<Rightarrow> if at_dollar rest then True else False
      | None \<Rightarrow> False)"

text \<open>
  The form the specification gives for a MAC address: six groups of two characters out of
  \<open>0-9\<close>, \<open>a-f\<close>, \<open>A-F\<close>, separated by colons, and nothing else.
\<close>

definition ascii_hex :: cclass where
  "ascii_hex c = ((48 \<le> c \<and> c \<le> 57) \<or> (97 \<le> c \<and> c \<le> 102) \<or> (65 \<le> c \<and> c \<le> 70))"

definition canonical_mac :: "pystr \<Rightarrow> bool" where
  "canonical_mac s =
     (match_seq (concat (replicate 5 [ascii_hex, ascii_hex, lit 58]) @ [ascii_hex, ascii_hex]) s
        = Some [])"

section \<open>The process and its environment\<close>

text \<open>
  A call of the program either returns, raises an exception, or leaves through
  \<open>sys.exit\<close>. \<open>SystemExit\<close> is no subclass of \<open>Exception\<close>: an
  \<open>except Exception\<close> clause handles \<open>Raise\<close> and lets \<open>Exit\<close> pass.
\<close>

datatype 'a outcome = Return 'a | Raise py_exc | Exit int

text \<open>
  What the process does to the outside, in order: a line of the log (written to
  \<open>mac_change.log\<close> and the console), a subprocess call with its argument vector, a line
  printed, a prompt of \<open>input\<close>.
\<close>

datatype event =
    Log_info pystr
  | Log_error pystr
  | Log_error_exc pystr py_exc
  | Run "pystr list"
  | Print pystr
  | Prompt pystr

text \<open>
  The standard output of a subprocess is bytes; \<open>.decode()\<close> returns their text or
  raises when they are no UTF-8.
\<close>

datatype bytes = Utf8 pystr | Not_utf8

datatype proc_result = Launch_failed | Exited int bytes

text \<open>
  The environment: \<open>sys.platform\<close>, \<open>os.geteuid()\<close>, the digit limit of \<open>int\<close>, what
  a subprocess does when it is called after a given history (\<open>spawn\<close>), the text files
  other than the log with the errors that opening one for reading or for writing meets, the
  lines still to come on standard input, and the events so far. Opening a file for
  writing can fail (\<open>open_w_error\<close>); after the open, writing and closing can fail too
  (\<open>write_fault\<close>: the text cannot be encoded, the disk is full), with the exception and
  the number of characters that reached the file. Standard input is the finite list of
  lines typed before the end of input. External commands are taken not to touch the backup
  files.
\<close>

record world =
  platform :: pystr
  euid :: nat
  max_str_digits :: nat
  spawn :: "event list \<Rightarrow> pystr list \<Rightarrow> proc_result"
  read_error :: "pystr \<Rightarrow> py_exc option"
  open_w_error :: "pystr \<Rightarrow> py_exc option"
  write_fault :: "pystr \<Rightarrow> pystr \<Rightarrow> (py_exc \<times> nat) option"
  files :: "pystr \<rightharpoonup> pystr"
  stdin :: "pystr list"
  trace :: "event list"

type_synonym 'a prog = "world \<Rightarrow> 'a outcome \<times> world"

definition ret :: "'a \<Rightarrow> 'a prog" where
  "ret x w = (Return x, w)"

definition raise :: "py_exc \<Rightarrow> 'a prog" where
  "raise e w = (Raise e, w)"

definition sys_exit :: "int \<Rightarrow> 'a prog" where
  "sys_exit c w = (Exit c, w)"

definition bind_p :: "'a prog \<Rightarrow> ('a \<Rightarrow> 'b prog) \<Rightarrow> 'b prog" where
  "bind_p m k w =
     (case m w of
        (Return x, w') \<Rightarrow> k x w'
      | (Raise e, w') \<Rightarrow> (Raise e, w')
      | (Exit c, w') \<Rightarrow> (Exit c, w'))"

definition except_Exception :: "'a prog \<Rightarrow> (py_exc \<Rightarrow> 'a prog) \<Rightarrow> 'a prog" where
  "except_Exception m h w =
     (case m w of
        (Raise e, w') \<Rightarrow> h e w'
      | (Return x, w') \<Rightarrow> (Return x, w')
      | (Exit c, w') \<Rightarrow> (Exit c, w'))"

definition lift :: "py_exc + 'a \<Rightarrow> 'a prog" where
  "lift r w = (case r of Inl e \<Rightarrow> (Raise e, w) | Inr x \<Rightarrow> (Return x, w))"

definition emit :: "event \<Rightarrow> unit prog" where
  "emit ev w = (Return (), w\<lparr>trace := trace w @ [ev]\<rparr>)"

definition logging_info :: "pystr \<Rightarrow> unit prog" where
  "logging_info msg = emit (Log_info msg)"

definition logging_error :: "pystr \<Rightarrow> unit prog" where
  "logging_error msg = emit (Log_error msg)"

text \<open>\<open>logging.error(f"<msg>: {e}")\<close> with the exception kept as a value.\<close>

definition logging_error_exc :: "pystr \<Rightarrow> py_exc \<Rightarrow> unit prog" where
  "logging_error_exc msg e = emit (Log_error_exc msg e)"

definition py_print :: "pystr \<Rightarrow> unit prog" where
  "py_print s = emit (Print s)"

text \<open>\<open>input(prompt)\<close>: the next line of standard input, \<open>EOFError\<close> when there is none.\<close>

definition py_input :: "pystr \<Rightarrow> pystr prog" where
  "py_input prompt w =
     (case stdin w of
        [] \<Rightarrow> (Raise EOFError, w\<lparr>trace := trace w @ [Prompt prompt]\<rparr>)
      | l # ls \<Rightarrow> (Return l, w\<lparr>stdin := ls, trace := trace w @ [Prompt prompt]\<rparr>))"

text \<open>
  \<open>subprocess.run(argv, check=True)\<close> and \<open>subprocess.check_output(argv)\<close>: the call
  is recorded; a command that cannot be launched raises \<open>OSError\<close>, one that exits with a
  status other than zero raises \<open>CalledProcessError\<close>.
\<close>

definition check_output :: "pystr list \<Rightarrow> bytes prog" where
  "check_output argv w =
     (let w' = w\<lparr>trace := trace w @ [Run argv]\<rparr> in
      case spawn w (trace w) argv of
        Launch_failed \<Rightarrow> (Raise OSError, w')
      | Exited rc out \<Rightarrow> if rc \<noteq> 0 then (Raise (CalledProcessError rc), w') else (Return out, w'))"

definition subprocess_run :: "pystr list \<Rightarrow> unit prog" where
  "subprocess_run argv = bind_p (check_output argv) (\<lambda>_. ret ())"

definition decode :: "bytes \<Rightarrow> pystr prog" where
  "decode b = (case b of Utf8 t \<Rightarrow> ret t | Not_utf8 \<Rightarrow> raise UnicodeError)"

text \<open>
  \<open>open(path, 'r').read()\<close>: \<open>files\<close> gives the text that reading a file returns.
\<close>

definition read_text :: "pystr \<Rightarrow> pystr prog" where
  "read_text path w =
     (case files w path of
        None \<Rightarrow> (Raise FileNotFoundError, w)
      | Some t \<Rightarrow> (case read_error w path of Some e \<Rightarrow> (Raise e, w) | None \<Rightarrow> (Return t, w)))"

text \<open>
  \<open>with open(path, 'w') as f: f.write(text)\<close>, in its two steps. The open either fails
  and leaves the file as it was, or truncates the file. The write, with the close at the
  end of the block, either stores the whole text or raises after a part of it has reached
  the file; when the text cannot be encoded none of it has. What the program writes holds
  no line break, so reading gives back what was written.
\<close>

definition open_w :: "pystr \<Rightarrow> unit prog" where
  "open_w path w =
     (case open_w_error w path of
        Some e \<Rightarrow> (Raise e, w)
      | None \<Rightarrow> (Return (), w\<lparr>files := (files w)(path \<mapsto> [])\<rparr>))"

definition write_close :: "pystr \<Rightarrow> pystr \<Rightarrow> unit prog" where
  "write_close path t w =
     (case write_fault w path t of
        Some (e, n) \<Rightarrow> (Raise e, w\<lparr>files := (files w)(path \<mapsto> take n t)\<rparr>)
      | None \<Rightarrow> (Return (), w\<lparr>files := (files w)(path \<mapsto> t)\<rparr>))"

section \<open>The program\<close>

datatype os_type = Linux | Macos | Windows

definition get_os :: "os_type prog" where
  "get_os w =
     (if startswith (platform w) (str ''linux'') then ret Linux w
      else if startswith (platform w) (str ''darwin'') then ret Macos w
      else if startswith (platform w) (str ''win'') then ret Windows w
      else bind_p (logging_error (str ''Unsupported operating system.'')) (\<lambda>_. sys_exit 1) w)"

definition get_interfaces :: "pystr list prog" where
  "get_interfaces =
     bind_p get_os (\<lambda>os_type.
     bind_p
       (if os_type = Linux \<or> os_type = Macos then
          except_Exception
            (bind_p (check_output [str ''ifconfig'']) (\<lambda>b.
             bind_p (decode b) (\<lambda>output.
             ret (findall_word output))))
            (\<lambda>e. bind_p (logging_error_exc (str ''Error detecting interfaces'') e)
                    (\<lambda>_. sys_exit 1))
        else
          except_Exception
            (bind_p (check_output [str ''ipconfig'']) (\<lambda>b.
             bind_p (decode b) (\<lambda>output.
             ret (findall_adapter output))))
            (\<lambda>e. bind_p (logging_error_exc (str ''Error detecting interfaces'') e)
                    (\<lambda>_. sys_exit 1)))
       (\<lambda>interfaces.
          if interfaces = []
          then bind_p (logging_error (str ''No network interfaces found.'')) (\<lambda>_. sys_exit 1)
          else ret interfaces))"

text \<open>
  \<open>re.search(r'ether ([\da-fA-F:]{17})', output)\<close> with its group 1, and the loop of the
  Windows branch over the lines of \<open>getmac\<close>.
\<close>

definition ether_search :: "pystr \<Rightarrow> pystr option" where
  "ether_search output =
     map_option (drop 6)
       (search_seq (map lit (str ''ether '') @ replicate 17 re_hex_colon) output)"

fun getmac_lines :: "pystr \<Rightarrow> pystr list \<Rightarrow> pystr option" where
  "getmac_lines interface [] = None"
| "getmac_lines interface (line # rest) =
     (if contains line interface
      then (case search_seq (replicate 17 re_hex_dash) line of
              Some m \<Rightarrow> Some (map (\<lambda>c. if c = 45 then 58 else c) m)
            | None \<Rightarrow> getmac_lines interface rest)
      else getmac_lines interface rest)"

definition get_current_mac :: "pystr \<Rightarrow> pystr option prog" where
  "get_current_mac interface =
     bind_p get_os (\<lambda>os_type.
     except_Exception
       (if os_type = Linux \<or> os_type = Macos then
          bind_p (check_output [str ''ifconfig'', interface]) (\<lambda>b.
          bind_p (decode b) (\<lambda>output.
          ret (ether_search output)))
        else
          bind_p (check_output [str ''getmac'', str ''/FO'', str ''CSV'', str ''/V'']) (\<lambda>b.
          bind_p (decode b) (\<lambda>output.
          ret (getmac_lines interface (splitlines output)))))
       (\<lambda>e. bind_p (logging_error_exc (str ''Error getting MAC address'') e) (\<lambda>_. ret None)))"

definition change_mac :: "pystr \<Rightarrow> pystr \<Rightarrow> unit prog" where
  "change_mac interface new_mac =
     bind_p get_os (\<lambda>os_type.
     except_Exception
       (bind_p
          (case os_type of
             Linux \<Rightarrow>
               bind_p (subprocess_run [str ''sudo'', str ''ifconfig'', interface, str ''down'']) (\<lambda>_.
               bind_p (subprocess_run [str ''sudo'', str ''ifconfig'', interface, str ''hw'',
                                       str ''ether'', new_mac]) (\<lambda>_.
               subprocess_run [str ''sudo'', str ''ifconfig'', interface, str ''up'']))
           | Macos \<Rightarrow>
               subprocess_run [str ''sudo'', str ''ifconfig'', interface, str ''ether'', new_mac]
           | Windows \<Rightarrow>
               subprocess_run [str ''netsh'', str ''interface'', str ''set'', str ''interface'',
                               interface, str ''newmac='' @ new_mac])
          (\<lambda>_. logging_info (str ''MAC address changed to '' @ new_mac @ str '' on ''
                               @ interface @ str ''.'')))
       (\<lambda>e. bind_p (logging_error_exc (str ''Error changing MAC address'') e) (\<lambda>_. sys_exit 1)))"

text \<open>\<open>if current_mac:\<close> holds for a string that is not empty, and fails for \<open>None\<close>.\<close>

definition backup_mac :: "pystr \<Rightarrow> pystr \<Rightarrow> unit prog" where
  "backup_mac interface backup_file =
     bind_p (get_current_mac interface) (\<lambda>current_mac.
       case current_mac of
         Some m \<Rightarrow>
           if m \<noteq> [] then
             bind_p (open_w backup_file) (\<lambda>_.
             bind_p (write_close backup_file m) (\<lambda>_.
             logging_info (str ''Backed up MAC address '' @ m @ str '' to '' @ backup_file
                           @ str ''.'')))
           else logging_error (str ''Failed to backup MAC address.'')
       | None \<Rightarrow> logging_error (str ''Failed to backup MAC address.''))"

definition restore_mac :: "pystr \<Rightarrow> pystr \<Rightarrow> unit prog" where
  "restore_mac interface backup_file =
     except_Exception
       (bind_p (read_text backup_file) (\<lambda>contents.
          let original_mac = strip contents in
          if validate_mac original_mac then
            bind_p (change_mac interface original_mac) (\<lambda>_.
            logging_info (str ''Restored MAC address to '' @ original_mac @ str '' on ''
                          @ interface @ str ''.''))
          else logging_error (str ''Invalid MAC address in backup file.'')))
       (\<lambda>e. logging_error_exc (str ''Error restoring MAC address'') e)"

definition check_permissions :: "unit prog" where
  "check_permissions w =
     (if startswith (platform w) (str ''linux'') \<or> startswith (platform w) (str ''darwin'') then
        (if euid w \<noteq> 0 then
           bind_p (logging_error (str ''This script requires root privileges. Please run with sudo.''))
             (\<lambda>_. sys_exit 1) w
         else ret () w)
      else if startswith (platform w) (str ''win'') then
        except_Exception
          (bind_p (check_output [str ''whoami'', str ''/priv'']) (\<lambda>_. ret ()))
          (\<lambda>e. bind_p (logging_error (str ''This script requires administrator privileges.''))
                  (\<lambda>_. sys_exit 1)) w
      else ret () w)"

text \<open>The numbered list of interfaces, printed from \<open>enumerate(interfaces)\<close>.\<close>

fun print_menu :: "nat \<Rightarrow> pystr list \<Rightarrow> unit prog" where
  "print_menu i [] = ret ()"
| "print_menu i (iface # rest) =
     bind_p (py_print (digits_of (i + 1) @ str ''. '' @ iface)) (\<lambda>_. print_menu (Suc i) rest)"

text \<open>The \<open>while True\<close> loop that asks for the new address until the validator accepts it.\<close>

function prompt_new_mac :: "pystr prog" where
  "prompt_new_mac w =
     (case py_input (str ''Enter the new MAC address (format: XX:XX:XX:XX:XX:XX): '') w of
        (Return line, w') \<Rightarrow>
          (let new_mac = strip line in
           if validate_mac new_mac then (Return new_mac, w')
           else prompt_new_mac
                  (snd (py_print (str ''Invalid MAC address format. Please try again.'') w')))
      | (Raise e, w') \<Rightarrow> (Raise e, w')
      | (Exit c, w') \<Rightarrow> (Exit c, w'))"
  by pat_completeness auto
termination
  by (relation "measure (\<lambda>w. length (stdin w))")
     (auto simp: py_input_def py_print_def emit_def split: list.splits)

declare prompt_new_mac.simps [simp del]

definition main :: "unit prog" where
  "main =
     bind_p check_permissions (\<lambda>_.
     bind_p get_interfaces (\<lambda>interfaces.
     bind_p (py_print (str ''Available network interfaces:'')) (\<lambda>_.
     bind_p (print_menu 0 interfaces) (\<lambda>_.
     bind_p (py_input (str ''Select the interface to modify (1, 2, ...): '')) (\<lambda>line.
     bind_p (\<lambda>w. lift (py_int (max_str_digits w) line) w) (\<lambda>number.
     let choice = number - 1 in
     bind_p (lift (py_index interfaces choice)) (\<lambda>interface.
     let backup_file = interface @ str ''_mac_backup.txt'' in
     bind_p (backup_mac interface backup_file) (\<lambda>_.
     bind_p prompt_new_mac (\<lambda>new_mac.
     bind_p (change_mac interface new_mac) (\<lambda>_.
     bind_p (get_current_mac interface) (\<lambda>current_mac.
     bind_p (if current_mac = Some new_mac
             then py_print (str ''Success! MAC address changed to '' @ new_mac @ str ''.'')
             else ret ()) (\<lambda>_.
     bind_p (py_input (str ''Do you want to restore the original MAC address? (y/n): '')) (\<lambda>answer.
     if lower_is_y answer then restore_mac interface backup_file else ret ())))))))))))))"

section \<open>Notions used in the statements\<close>

text \<open>The exception that a finished subprocess call raises under \<open>check=True\<close>, if any.\<close>

definition call_failure :: "proc_result \<Rightarrow> py_exc option" where
  "call_failure r =
     (case r of
        Launch_failed \<Rightarrow> Some OSError
      | Exited rc out \<Rightarrow> if rc \<noteq> 0 then Some (CalledProcessError rc) else None)"

text \<open>Worlds for the concrete runs below: a Linux or Windows session of the superuser.\<close>

definition session :: "pystr \<Rightarrow> (event list \<Rightarrow> pystr list \<Rightarrow> proc_result) \<Rightarrow> (pystr \<rightharpoonup> pystr)
    \<Rightarrow> pystr list \<Rightarrow> world" where
  "session plat sp fs inp =
     \<lparr>platform = plat, euid = 0, max_str_digits = 4300, spawn = sp,
      read_error = (\<lambda>_. None), open_w_error = (\<lambda>_. None), write_fault = (\<lambda>_ _. None),
      files = fs, stdin = inp, trace = []\<rparr>"

definition always :: "proc_result \<Rightarrow> event list \<Rightarrow> pystr list \<Rightarrow> proc_result" where
  "always r history argv = r"

text \<open>A subprocess environment in which exactly the second call fails, with exit status 1.\<close>

definition second_fails :: "event list \<Rightarrow> pystr list \<Rightarrow> proc_result" where
  "second_fails history argv = (if length history = 1 then Exited 1 (Utf8 []) else Exited 0 (Utf8 []))"

text \<open>
  A row of \<open>getmac /FO CSV /V\<close> for the connection \<open>Ethernet\<close> whose address column
  holds no address, and whose transport name holds the identifier of the device.
\<close>

definition getmac_row :: pystr where
  "getmac_row =
     [34] @ str ''Ethernet'' @ [34, 44, 34] @ str ''Adapter'' @ [34, 44, 34] @ str ''N/A''
     @ [34, 44, 34, 92] @ str ''Device'' @ [92]
     @ str ''Tcpip_{4D36E972-E325-11CE-BFC1-08002BE10318}'' @ [34]"

text \<open>The lines that \<open>print_menu\<close> prints, as events.\<close>

fun menu_lines :: "nat \<Rightarrow> pystr list \<Rightarrow> event list" where
  "menu_lines i [] = []"
| "menu_lines i (iface # rest) =
     Print (digits_of (i + 1) @ str ''. '' @ iface) # menu_lines (Suc i) rest"

text \<open>
  A Linux session of the superuser with the single interface \<open>eth0\<close>, in which every
  command succeeds and \<open>ifconfig\<close> prints the line below; \<open>typed\<close> is what the user
  enters.
\<close>

definition eth0_session :: "pystr list \<Rightarrow> world" where
  "eth0_session typed =
     session (str ''linux'') (always (Exited 0 (Utf8 (str ''eth0: ether AA:BB:CC:DD:EE:FF''))))
       Map.empty typed"

section \<open>Basic facts\<close>

lemmas prog_defs = ret_def raise_def sys_exit_def bind_p_def except_Exception_def lift_def
  emit_def logging_info_def logging_error_def logging_error_exc_def py_print_def
  subprocess_run_def decode_def

lemma replicate_5: "replicate 5 x = [x, x, x, x, x]"
  by (simp add: eval_nat_numeral)

lemma replicate_17:
  "replicate 17 x = [x, x, x, x, x, x, x, x, x, x, x, x, x, x, x, x, x]"
  by (simp add: eval_nat_numeral)

lemmas class_defs = re_hex_def re_hex_colon_def re_hex_dash_def lit_def uni_decimal_def
  uni_decimal_value_def uni_decimal_starts_def ascii_hex_def

lemma get_os_linux: "startswith (platform w) (str ''linux'') \<Longrightarrow> get_os w = (Return Linux, w)"
  by (simp add: get_os_def ret_def)

lemma get_os_no_raise: "fst (get_os w) \<noteq> Raise e"
  by (simp add: get_os_def prog_defs)

lemma get_os_exit: "fst (get_os w) = Exit c \<Longrightarrow> c = 1"
  by (simp add: get_os_def prog_defs split: if_splits)

lemma get_os_world: "get_os w = (Return os, w') \<Longrightarrow> w' = w"
  by (auto simp add: get_os_def prog_defs split: if_splits)

lemma handler_exit_no_raise:
  "fst (except_Exception m (\<lambda>e. bind_p (logging_error_exc msg e) (\<lambda>_. sys_exit c)) w) \<noteq> Raise e'"
  by (simp add: prog_defs split: prod.splits outcome.splits)

lemma change_mac_no_raise: "fst (change_mac interface new_mac w) \<noteq> Raise e"
proof (cases "get_os w")
  case (Pair r w')
  show ?thesis
  proof (cases r)
    case (Return os)
    with Pair show ?thesis
      using handler_exit_no_raise [of _ "str ''Error changing MAC address''" 1 w' e]
      by (simp add: change_mac_def bind_p_def [of get_os])
  next
    case (Raise x)
    with Pair get_os_no_raise [of w x] show ?thesis by simp
  next
    case (Exit c)
    with Pair show ?thesis by (simp add: change_mac_def bind_p_def [of get_os])
  qed
qed

lemma get_os_exit_eq: "get_os w = (Exit c, w') \<Longrightarrow> c = 1"
  by (simp add: get_os_def prog_defs split: if_splits)

lemma change_mac_exit: "fst (change_mac interface new_mac w) = Exit c \<Longrightarrow> c = 1"
  by (cases "get_os w")
     (auto simp: change_mac_def prog_defs check_output_def Let_def
        split: outcome.splits prod.splits if_splits os_type.splits proc_result.splits
        dest: get_os_exit_eq)

lemma strip_mac: "strip (str ''DE:AD:BE:EF:00:01'') = str ''DE:AD:BE:EF:00:01''"
  by (simp add: strip_def str_def uni_space_def)

lemma validate_mac_DEAD: "validate_mac (str ''DE:AD:BE:EF:00:01'')"
  by (simp add: validate_mac_def mac_pattern_def str_def class_defs at_dollar_def replicate_5)

lemma except_no_raise:
  "(\<And>e. fst (m w) \<noteq> Raise e) \<Longrightarrow> except_Exception m h w = m w"
  by (cases "m w") (auto simp: except_Exception_def split: outcome.splits)

lemma bind_no_raise:
  "(\<And>e. fst (m w) \<noteq> Raise e) \<Longrightarrow> (\<And>x w' e. fst (k x w') \<noteq> Raise e) \<Longrightarrow>
     fst (bind_p m k w) \<noteq> Raise e"
  by (cases "m w") (auto simp: bind_p_def split: outcome.splits)

lemma logging_info_no_raise: "fst (logging_info msg w) \<noteq> Raise e"
  by (simp add: prog_defs)

lemma session_sel:
  "platform (session p sp fs inp) = p" "euid (session p sp fs inp) = 0"
  "max_str_digits (session p sp fs inp) = 4300" "spawn (session p sp fs inp) = sp"
  "read_error (session p sp fs inp) path = None" "open_w_error (session p sp fs inp) path = None"
  "write_fault (session p sp fs inp) path t = None"
  "files (session p sp fs inp) = fs" "stdin (session p sp fs inp) = inp"
  "trace (session p sp fs inp) = []"
  by (simp_all add: session_def)

lemma match_seq_shape:
  "match_seq ps s = Some rest \<Longrightarrow> list_all2 (\<lambda>p c. p c) ps (take (length ps) s)"
  by (induction ps s rule: match_seq.induct) (auto split: if_splits)

lemma match_seq_length: "match_seq ps s = Some rest \<Longrightarrow> length ps \<le> length s"
  by (induction ps s rule: match_seq.induct) (auto split: if_splits)

lemma search_seq_shape:
  "search_seq ps s = Some m \<Longrightarrow> list_all2 (\<lambda>p c. p c) ps m"
proof (induction ps s rule: search_seq.induct)
  case (1 ps)
  then show ?case by (simp split: if_splits)
next
  case (2 ps c s)
  then show ?case
    using match_seq_shape [of ps "c # s"]
    by (auto split: option.splits)
qed

lemma replicate_all2: "list_all2 (\<lambda>p c. p c) (replicate n q) m \<Longrightarrow> length m = n \<and> list_all q m"
  by (induction n arbitrary: m) (auto simp: list_all2_Cons1)

lemma ether_search_shape:
  assumes "ether_search output = Some m"
  shows "length m = 17 \<and> list_all re_hex_colon m"
proof -
  from assms obtain m' where s: "search_seq (map lit (str ''ether '') @ replicate 17 re_hex_colon) output = Some m'"
    and m: "m = drop 6 m'"
    by (auto simp: ether_search_def)
  from search_seq_shape [OF s] obtain us vs where uv: "m' = us @ vs"
    and u: "list_all2 (\<lambda>p c. p c) (map lit (str ''ether '')) us"
    and v: "list_all2 (\<lambda>p c. p c) (replicate 17 re_hex_colon) vs"
    by (auto simp: list_all2_append1)
  from u have "length us = 6" by (auto simp: str_def dest: list_all2_lengthD)
  with uv m have "m = vs" by simp
  with replicate_all2 [OF v] show ?thesis by simp
qed

lemma getmac_lines_shape:
  "getmac_lines interface ls = Some m \<Longrightarrow> length m = 17 \<and> list_all re_hex_colon m"
proof (induction ls)
  case Nil
  then show ?case by simp
next
  case (Cons line ls)
  show ?case
  proof (cases "contains line interface \<and> search_seq (replicate 17 re_hex_dash) line \<noteq> None")
    case True
    then obtain m0 where s: "search_seq (replicate 17 re_hex_dash) line = Some m0" by auto
    with True Cons.prems have m: "m = map (\<lambda>c. if c = 45 then 58 else c) m0" by simp
    from replicate_all2 [OF search_seq_shape [OF s]]
    have "length m0 = 17" and "list_all re_hex_dash m0" by simp_all
    with m show ?thesis
      by (auto simp: list_all_iff re_hex_dash_def re_hex_colon_def)
  next
    case False
    with Cons show ?thesis by (auto split: option.splits if_splits)
  qed
qed

lemma get_current_mac_frame:
  "get_current_mac interface w = (r, w') \<Longrightarrow> w' = w\<lparr>trace := trace w'\<rparr>"
  by (cases "get_os w")
     (auto simp: get_current_mac_def get_os_def check_output_def prog_defs Let_def
        split: if_splits proc_result.splits bytes.splits outcome.splits prod.splits)

lemma get_current_mac_shape:
  assumes "get_current_mac interface w = (Return (Some m), w')"
  shows "length m = 17 \<and> list_all re_hex_colon m"
  using assms ether_search_shape [of _ m] getmac_lines_shape [of interface _ m]
  by (cases "get_os w")
     (auto simp: get_current_mac_def get_os_def check_output_def prog_defs Let_def
        split: if_splits proc_result.splits bytes.splits outcome.splits prod.splits)

lemma get_current_mac_files:
  assumes "get_current_mac interface w = (r, w')"
  shows "files w' = files w" and "open_w_error w' = open_w_error w"
    and "write_fault w' = write_fault w"
proof -
  note f = get_current_mac_frame [OF assms]
  from arg_cong [where f = files, OF f] show "files w' = files w" by simp
  from arg_cong [where f = open_w_error, OF f] show "open_w_error w' = open_w_error w" by simp
  from arg_cong [where f = write_fault, OF f] show "write_fault w' = write_fault w" by simp
qed

lemma print_menu_eq:
  "print_menu i ifaces w = (Return (), w\<lparr>trace := trace w @ menu_lines i ifaces\<rparr>)"
  by (induction ifaces arbitrary: i w) (simp_all add: prog_defs)

lemma py_int_error: "py_int limit s = Inl e \<Longrightarrow> e = ValueError"
  by (auto simp: py_int_def Let_def split: option.splits if_splits)

lemma py_index_error:
  "int (length xs) \<le> i \<or> i < - int (length xs) \<Longrightarrow> py_index xs i = Inl IndexError"
  by (auto simp: py_index_def)

lemma eth0_session_sel:
  "platform (eth0_session typed) = str ''linux''" "euid (eth0_session typed) = 0"
  "max_str_digits (eth0_session typed) = 4300"
  "spawn (eth0_session typed) = always (Exited 0 (Utf8 (str ''eth0: ether AA:BB:CC:DD:EE:FF'')))"
  "read_error (eth0_session typed) path = None" "open_w_error (eth0_session typed) path = None"
  "write_fault (eth0_session typed) path t = None"
  "files (eth0_session typed) = Map.empty" "stdin (eth0_session typed) = typed"
  "trace (eth0_session typed) = []"
  by (simp_all add: eth0_session_def session_sel)

lemma eth0_check_permissions:
  "check_permissions (eth0_session typed) = (Return (), eth0_session typed)"
  by (simp add: check_permissions_def eth0_session_sel startswith_def ret_def)

lemma eth0_findall: "findall_word (str ''eth0: ether AA:BB:CC:DD:EE:FF'') = [str ''eth0'']"
  by (simp add: findall_word_def str_def uni_word_def)

lemma eth0_get_interfaces:
  "get_interfaces (eth0_session typed) =
     (Return [str ''eth0''], (eth0_session typed)\<lparr>trace := [Run [str ''ifconfig'']]\<rparr>)"
  using get_os_linux [of "eth0_session typed"]
  by (simp add: get_interfaces_def eth0_session_sel startswith_def check_output_def prog_defs
      always_def eth0_findall)

lemma eth0_ether:
  "ether_search (str ''eth0: ether AA:BB:CC:DD:EE:FF'') = Some (str ''AA:BB:CC:DD:EE:FF'')"
  by (simp add: ether_search_def str_def class_defs replicate_17)

lemma eth0_get_current_mac:
  assumes "platform w = str ''linux''"
    and "spawn w = always (Exited 0 (Utf8 (str ''eth0: ether AA:BB:CC:DD:EE:FF'')))"
  shows "get_current_mac (str ''eth0'') w =
     (Return (Some (str ''AA:BB:CC:DD:EE:FF'')),
      w\<lparr>trace := trace w @ [Run [str ''ifconfig'', str ''eth0'']]\<rparr>)"
proof -
  have "get_os w = (Return Linux, w)"
    by (rule get_os_linux) (simp add: assms startswith_def)
  then show ?thesis
    by (simp add: get_current_mac_def check_output_def prog_defs assms always_def eth0_ether)
qed

lemmas py_int_defs = py_int_def str_def int_ascii_def ascii_space_def ascii_digit_def
  int_body_ok_def digits_value_def Let_def

lemma py_int_0: "py_int 4300 (str ''0'') = Inr 0"
  by (simp add: py_int_defs)

lemma py_int_2: "py_int 4300 (str ''2'') = Inr 2"
  by (simp add: py_int_defs)

lemma py_int_abc: "py_int 4300 (str ''abc'') = Inl ValueError"
  by (simp add: py_int_defs)

lemma validate_new: "validate_mac (str ''AA:BB:CC:11:22:33'')"
  by (simp add: validate_mac_def mac_pattern_def str_def class_defs at_dollar_def replicate_5)

lemma strip_new: "strip (str ''AA:BB:CC:11:22:33'') = str ''AA:BB:CC:11:22:33''"
  by (simp add: strip_def str_def uni_space_def)

lemma prompt_new_mac_first:
  assumes "stdin w = str ''AA:BB:CC:11:22:33'' # inp"
  shows "prompt_new_mac w =
    (Return (str ''AA:BB:CC:11:22:33''),
     w\<lparr>stdin := inp,
        trace := trace w @ [Prompt (str ''Enter the new MAC address (format: XX:XX:XX:XX:XX:XX): '')]\<rparr>)"
  by (subst prompt_new_mac.simps) (simp add: py_input_def assms validate_new strip_new Let_def)

lemma eth0_change_mac:
  assumes "platform w = str ''linux''"
    and "spawn w = always (Exited 0 (Utf8 (str ''eth0: ether AA:BB:CC:DD:EE:FF'')))"
  shows "change_mac (str ''eth0'') new_mac w =
    (Return (),
     w\<lparr>trace := trace w @
         [Run [str ''sudo'', str ''ifconfig'', str ''eth0'', str ''down''],
          Run [str ''sudo'', str ''ifconfig'', str ''eth0'', str ''hw'', str ''ether'', new_mac],
          Run [str ''sudo'', str ''ifconfig'', str ''eth0'', str ''up''],
          Log_info (str ''MAC address changed to '' @ new_mac @ str '' on eth0.'')]\<rparr>)"
proof -
  have "get_os w = (Return Linux, w)"
    by (rule get_os_linux) (simp add: assms startswith_def)
  then show ?thesis
    by (simp add: change_mac_def check_output_def prog_defs assms always_def str_def)
qed

lemma eth0_backup_mac:
  assumes "platform w = str ''linux''"
    and "spawn w = always (Exited 0 (Utf8 (str ''eth0: ether AA:BB:CC:DD:EE:FF'')))"
    and "open_w_error w (str ''eth0_mac_backup.txt'') = None"
    and "write_fault w (str ''eth0_mac_backup.txt'') (str ''AA:BB:CC:DD:EE:FF'') = None"
  shows "backup_mac (str ''eth0'') (str ''eth0'' @ str ''_mac_backup.txt'') w =
   (Return (),
    w\<lparr>files := (files w)(str ''eth0_mac_backup.txt'' \<mapsto> str ''AA:BB:CC:DD:EE:FF''),
       trace := trace w @ [Run [str ''ifconfig'', str ''eth0''],
         Log_info (str ''Backed up MAC address AA:BB:CC:DD:EE:FF to eth0_mac_backup.txt.'')]\<rparr>)"
proof -
  have a: "str ''eth0'' @ str ''_mac_backup.txt'' = str ''eth0_mac_backup.txt''"
    by (simp add: str_def)
  have b: "str ''AA:BB:CC:DD:EE:FF'' \<noteq> []"
    by (simp add: str_def)
  show ?thesis
    unfolding a
    apply (simp add: backup_mac_def bind_p_def [of "get_current_mac _"]
          eth0_get_current_mac [OF assms(1,2)] b)
    apply (simp add: open_w_def write_close_def prog_defs assms)
    apply (simp add: str_def)
    done
qed

lemma getmac_row_reader:
  "get_current_mac (str ''Ethernet'')
      (session (str ''win32'') (always (Exited 0 (Utf8 getmac_row))) Map.empty []) =
     (Return (Some (str ''4D36E972:E325:11C'')),
      (session (str ''win32'') (always (Exited 0 (Utf8 getmac_row))) Map.empty [])
        \<lparr>trace := [Run [str ''getmac'', str ''/FO'', str ''CSV'', str ''/V'']]\<rparr>)"
proof -
  let ?w = "session (str ''win32'') (always (Exited 0 (Utf8 getmac_row))) Map.empty []"
  have o: "get_os ?w = (Return Windows, ?w)"
    by (simp add: get_os_def session_sel startswith_def str_def ret_def)
  have l: "splitlines getmac_row = [getmac_row]"
    by (simp add: splitlines_def getmac_row_def str_def is_linebreak_def)
  have c: "contains getmac_row (str ''Ethernet'')"
    by (simp add: getmac_row_def str_def startswith_def)
  have s: "search_seq (replicate 17 re_hex_dash) getmac_row = Some (str ''4D36E972-E325-11C'')"
    by (simp add: getmac_row_def str_def class_defs replicate_17)
  show ?thesis
    using o
    by (simp add: get_current_mac_def check_output_def prog_defs session_sel always_def l c s)
       (simp add: str_def)
qed

lemma match_seq_mono:
  "match_seq ps s = Some r \<Longrightarrow> list_all2 (\<lambda>p q. \<forall>c. p c \<longrightarrow> q c) ps qs \<Longrightarrow>
     match_seq qs s = Some r"
  by (induction ps s arbitrary: qs rule: match_seq.induct)
     (auto simp: list_all2_Cons1 split: if_splits)

lemma ascii_digit_decimal: "48 \<le> c \<Longrightarrow> c \<le> 57 \<Longrightarrow> uni_decimal c"
  by (simp add: uni_decimal_def uni_decimal_value_def uni_decimal_starts_def)

lemma ascii_hex_re_hex: "ascii_hex c \<Longrightarrow> re_hex c"
  using ascii_digit_decimal [of c] by (auto simp: ascii_hex_def re_hex_def)

lemma canonical_mac_accepted: "canonical_mac s \<Longrightarrow> validate_mac s"
proof -
  assume "canonical_mac s"
  then have "match_seq (concat (replicate 5 [ascii_hex, ascii_hex, lit 58]) @ [ascii_hex, ascii_hex]) s
      = Some []"
    by (simp add: canonical_mac_def)
  then have "match_seq mac_pattern s = Some []"
    by (rule match_seq_mono) (simp add: mac_pattern_def replicate_5 ascii_hex_re_hex)
  then show ?thesis
    by (simp add: validate_mac_def at_dollar_def)
qed

lemma find_decimal_none:
  "\<forall>z\<in>set zs. (c::nat) < z \<Longrightarrow> find (\<lambda>z. z \<le> c \<and> c < z + 10) zs = None"
  by (induction zs) auto

lemma uni_decimal_ascii: "uni_decimal c \<Longrightarrow> c < 128 \<Longrightarrow> 48 \<le> c \<and> c \<le> 57"
proof -
  assume d: "uni_decimal c" and a: "c < 128"
  have "\<forall>z\<in>set (tl uni_decimal_starts). c < z"
    using a by (simp add: uni_decimal_starts_def)
  then have n: "find (\<lambda>z. z \<le> c \<and> c < z + 10) (tl uni_decimal_starts) = None"
    by (rule find_decimal_none)
  have e: "uni_decimal_starts = 48 # tl uni_decimal_starts"
    by (simp add: uni_decimal_starts_def)
  have "find (\<lambda>z. z \<le> c \<and> c < z + 10) uni_decimal_starts =
          (if 48 \<le> c \<and> c < 58 then Some 48
           else find (\<lambda>z. z \<le> c \<and> c < z + 10) (tl uni_decimal_starts))"
    by (subst e) simp
  with n d show ?thesis
    by (simp add: uni_decimal_def uni_decimal_value_def split: if_splits)
qed

lemma re_hex_ascii: "re_hex c \<Longrightarrow> c < 128 \<Longrightarrow> ascii_hex c"
  using uni_decimal_ascii [of c] by (auto simp: re_hex_def ascii_hex_def)

section \<open>The claims\<close>

subsection \<open>C1\<close>

text \<open>
  C1. The validator takes the digits of a group with \<open>\d\<close>, which on a \<open>str\<close> pattern
  matches every Unicode decimal digit: it accepts the address \<open>BB:CC:11:22:33\<close> preceded
  by two ARABIC-INDIC DIGIT ZERO (U+0660) and a colon, which is not of the form
  \<open>^([0-9a-fA-F]{2}:){5}[0-9a-fA-F]{2}$\<close>. Its \<open>$\<close> also accepts a canonical address
  followed by one newline.
\<close>

theorem validate_mac_accepts_non_hex:
  "validate_mac ([1632, 1632] @ str '':BB:CC:11:22:33'') \<and>
   \<not> canonical_mac ([1632, 1632] @ str '':BB:CC:11:22:33'') \<and>
   validate_mac (str ''AA:BB:CC:11:22:33'' @ [10]) \<and>
   \<not> canonical_mac (str ''AA:BB:CC:11:22:33'' @ [10])"
  by (simp add: validate_mac_def canonical_mac_def mac_pattern_def str_def class_defs
      at_dollar_def replicate_5)

subsection \<open>C2\<close>

text \<open>
  C2. For every interface: when the backup file holds \<open>DE:AD:BE:EF:00:01\<close> and can be read,
  restore strips and validates the contents and then runs the Mutator \<open>change_mac\<close> on the
  interface with exactly the value \<open>DE:AD:BE:EF:00:01\<close>; what restore does is what that
  call does, followed by the log line of the restore.
\<close>

theorem restore_mac_round_trip:
  assumes "files w backup_file = Some (str ''DE:AD:BE:EF:00:01'')"
    and "read_error w backup_file = None"
  shows "restore_mac interface backup_file w =
           bind_p (change_mac interface (str ''DE:AD:BE:EF:00:01''))
             (\<lambda>_. logging_info (str ''Restored MAC address to '' @ str ''DE:AD:BE:EF:00:01''
                     @ str '' on '' @ interface @ str ''.'')) w"
proof -
  let ?body = "bind_p (change_mac interface (str ''DE:AD:BE:EF:00:01''))
             (\<lambda>_. logging_info (str ''Restored MAC address to '' @ str ''DE:AD:BE:EF:00:01''
                     @ str '' on '' @ interface @ str ''.''))"
  have "\<And>e. fst (?body w) \<noteq> Raise e"
    by (rule bind_no_raise) (simp_all add: change_mac_no_raise logging_info_no_raise)
  then have "except_Exception ?body
               (\<lambda>e. logging_error_exc (str ''Error restoring MAC address'') e) w = ?body w"
    by (rule except_no_raise)
  moreover have "restore_mac interface backup_file w =
      except_Exception ?body (\<lambda>e. logging_error_exc (str ''Error restoring MAC address'') e) w"
    using assms
    by (simp add: restore_mac_def read_text_def except_Exception_def bind_p_def Let_def
        strip_mac validate_mac_DEAD)
  ultimately show ?thesis by simp
qed

text \<open>
  A Linux session where every command succeeds and \<open>eth0_mac_backup.txt\<close> holds the
  address: restore runs the three commands of the Mutator with that address.
\<close>

theorem restore_mac_round_trip_witness:
  "files (session (str ''linux'') (always (Exited 0 (Utf8 [])))
            [str ''eth0_mac_backup.txt'' \<mapsto> str ''DE:AD:BE:EF:00:01''] [])
     (str ''eth0_mac_backup.txt'') = Some (str ''DE:AD:BE:EF:00:01'') \<and>
   read_error (session (str ''linux'') (always (Exited 0 (Utf8 [])))
            [str ''eth0_mac_backup.txt'' \<mapsto> str ''DE:AD:BE:EF:00:01''] [])
     (str ''eth0_mac_backup.txt'') = None \<and>
   restore_mac (str ''eth0'') (str ''eth0_mac_backup.txt'')
     (session (str ''linux'') (always (Exited 0 (Utf8 [])))
            [str ''eth0_mac_backup.txt'' \<mapsto> str ''DE:AD:BE:EF:00:01''] []) =
     (Return (),
      (session (str ''linux'') (always (Exited 0 (Utf8 [])))
            [str ''eth0_mac_backup.txt'' \<mapsto> str ''DE:AD:BE:EF:00:01''] [])\<lparr>trace :=
        [Run [str ''sudo'', str ''ifconfig'', str ''eth0'', str ''down''],
         Run [str ''sudo'', str ''ifconfig'', str ''eth0'', str ''hw'', str ''ether'',
              str ''DE:AD:BE:EF:00:01''],
         Run [str ''sudo'', str ''ifconfig'', str ''eth0'', str ''up''],
         Log_info (str ''MAC address changed to DE:AD:BE:EF:00:01 on eth0.''),
         Log_info (str ''Restored MAC address to DE:AD:BE:EF:00:01 on eth0.'')]\<rparr>)"
proof -
  let ?w = "session (str ''linux'') (always (Exited 0 (Utf8 [])))
            [str ''eth0_mac_backup.txt'' \<mapsto> str ''DE:AD:BE:EF:00:01''] []"
  have f: "files ?w (str ''eth0_mac_backup.txt'') = Some (str ''DE:AD:BE:EF:00:01'')"
    by (simp add: session_sel)
  have r: "read_error ?w (str ''eth0_mac_backup.txt'') = None"
    by (simp add: session_sel)
  have p: "startswith (platform ?w) (str ''linux'')"
    by (simp add: session_sel startswith_def)
  show ?thesis
    using f r restore_mac_round_trip [OF f r, of "str ''eth0''"] get_os_linux [OF p]
    by (simp add: change_mac_def check_output_def prog_defs session_sel always_def str_def)
qed

subsection \<open>C3\<close>

text \<open>
  C3, as the claim states it, fails: the selection \<open>0\<close> is out of the range of the menu,
  yet \<open>int("0") - 1\<close> is \<open>-1\<close>, and \<open>interfaces[-1]\<close> is the last interface. With the
  single interface \<open>eth0\<close> the program raises nothing: it goes on to back up and change the
  address of \<open>eth0\<close>.
\<close>

theorem main_selection_zero_counterexample:
  "main (eth0_session [str ''0'', str ''AA:BB:CC:11:22:33'', str ''n'']) =
     (Return (),
      (eth0_session [str ''0'', str ''AA:BB:CC:11:22:33'', str ''n''])
        \<lparr>files := [str ''eth0_mac_backup.txt'' \<mapsto> str ''AA:BB:CC:DD:EE:FF''],
          stdin := [],
          trace :=
            [Run [str ''ifconfig''],
             Print (str ''Available network interfaces:''),
             Print (str ''1. eth0''),
             Prompt (str ''Select the interface to modify (1, 2, ...): ''),
             Run [str ''ifconfig'', str ''eth0''],
             Log_info (str ''Backed up MAC address AA:BB:CC:DD:EE:FF to eth0_mac_backup.txt.''),
             Prompt (str ''Enter the new MAC address (format: XX:XX:XX:XX:XX:XX): ''),
             Run [str ''sudo'', str ''ifconfig'', str ''eth0'', str ''down''],
             Run [str ''sudo'', str ''ifconfig'', str ''eth0'', str ''hw'', str ''ether'',
                  str ''AA:BB:CC:11:22:33''],
             Run [str ''sudo'', str ''ifconfig'', str ''eth0'', str ''up''],
             Log_info (str ''MAC address changed to AA:BB:CC:11:22:33 on eth0.''),
             Run [str ''ifconfig'', str ''eth0''],
             Prompt (str ''Do you want to restore the original MAC address? (y/n): '')]\<rparr>)"
proof -
  have i: "py_index [str ''eth0''] (- 1) = Inr (str ''eth0'')"
    by (simp add: py_index_def)
  have d: "digits_of (Suc 0) = str ''1''"
    by (simp add: digits_of.simps str_def)
  have n: "\<not> lower_is_y (str ''n'')"
    by (simp add: lower_is_y_def str_def)
  have ne: "str ''AA:BB:CC:DD:EE:FF'' \<noteq> str ''AA:BB:CC:11:22:33''"
    by (simp add: str_def)
  show ?thesis
    unfolding main_def
    apply (simp add: bind_p_def [of check_permissions] eth0_check_permissions)
    apply (simp add: bind_p_def [of get_interfaces] eth0_get_interfaces)
    apply (simp add: bind_p_def print_menu_eq d py_print_def emit_def py_input_def
        eth0_session_sel lift_def py_int_0 i Let_def eth0_backup_mac prompt_new_mac_first eth0_change_mac
        eth0_get_current_mac ne n ret_def)
    apply (simp add: str_def)
    done
qed

text \<open>
  C3, amended. For every list of interfaces that the Enumerator returns (it is never empty),
  with \<open>n\<close> its length: a selection that \<open>int\<close> refuses raises \<open>ValueError\<close>, and a number
  \<open>k\<close> with \<open>k > n\<close> or \<open>k \<le> -n\<close> raises \<open>IndexError\<close>. Either exception leaves
  \<open>main\<close> unhandled, right after the prompt of the menu, before any backup or change.
\<close>

theorem main_selection_fault:
  assumes "check_permissions w = (Return (), w1)"
    and "get_interfaces w1 = (Return interfaces, w2)"
    and "stdin w2 = line # rest"
  shows "let at_menu = w2\<lparr>stdin := rest,
               trace := trace w2 @ [Print (str ''Available network interfaces:'')]
                 @ menu_lines 0 interfaces
                 @ [Prompt (str ''Select the interface to modify (1, 2, ...): '')]\<rparr>
         in (\<forall>e. py_int (max_str_digits w2) line = Inl e \<longrightarrow>
                  e = ValueError \<and> main w = (Raise ValueError, at_menu)) \<and>
            (\<forall>k. py_int (max_str_digits w2) line = Inr k \<and>
                  (int (length interfaces) < k \<or> k \<le> - int (length interfaces)) \<longrightarrow>
                  main w = (Raise IndexError, at_menu))"
  using assms
  by (auto simp: Let_def main_def bind_p_def print_menu_eq py_print_def emit_def py_input_def
      lift_def py_index_error dest: py_int_error)

text \<open>The session with the single interface \<open>eth0\<close> and the selection \<open>2\<close>.\<close>

theorem main_selection_fault_witness:
  "check_permissions (eth0_session [str ''2'']) = (Return (), eth0_session [str ''2'']) \<and>
   get_interfaces (eth0_session [str ''2'']) =
     (Return [str ''eth0''], (eth0_session [str ''2''])\<lparr>trace := [Run [str ''ifconfig'']]\<rparr>) \<and>
   stdin ((eth0_session [str ''2''])\<lparr>trace := [Run [str ''ifconfig'']]\<rparr>) = str ''2'' # [] \<and>
   py_int (max_str_digits ((eth0_session [str ''2''])\<lparr>trace := [Run [str ''ifconfig'']]\<rparr>))
     (str ''2'') = Inr 2 \<and>
   main (eth0_session [str ''2'']) =
     (Raise IndexError,
      (eth0_session [str ''2''])\<lparr>stdin := [],
         trace := [Run [str ''ifconfig''],
                   Print (str ''Available network interfaces:''),
                   Print (str ''1. eth0''),
                   Prompt (str ''Select the interface to modify (1, 2, ...): '')]\<rparr>)"
proof -
  let ?w = "eth0_session [str ''2'']"
  note c = eth0_check_permissions [of "[str ''2'']"]
  note g = eth0_get_interfaces [of "[str ''2'']"]
  have s: "stdin (?w\<lparr>trace := [Run [str ''ifconfig'']]\<rparr>) = str ''2'' # []"
    by (simp add: eth0_session_sel)
  have i: "py_int (max_str_digits (?w\<lparr>trace := [Run [str ''ifconfig'']]\<rparr>)) (str ''2'') = Inr 2"
    by (simp add: eth0_session_sel py_int_2)
  have d: "digits_of (Suc 0) = str ''1''"
    by (simp add: digits_of.simps str_def)
  have a: "str ''1'' @ str ''. '' @ str ''eth0'' = str ''1. eth0''"
    by (simp add: str_def)
  show ?thesis
    using c g s i main_selection_fault [OF c g s]
    by (simp add: Let_def d a)
qed

subsection \<open>C4\<close>

text \<open>
  C4, as the claim states it, fails: with a valid address in the backup file and a Mutator
  command that exits with status 1, \<open>change_mac\<close> logs the error and calls \<open>sys.exit(1)\<close>;
  \<open>SystemExit\<close> passes the \<open>except Exception\<close> clause of \<open>restore_mac\<close>, and the
  process ends.
\<close>

theorem restore_mac_fatal_counterexample:
  "restore_mac (str ''eth0'') (str ''eth0_mac_backup.txt'')
     (session (str ''linux'') (always (Exited 1 (Utf8 [])))
        [str ''eth0_mac_backup.txt'' \<mapsto> str ''DE:AD:BE:EF:00:01''] []) =
     (Exit 1,
      (session (str ''linux'') (always (Exited 1 (Utf8 [])))
        [str ''eth0_mac_backup.txt'' \<mapsto> str ''DE:AD:BE:EF:00:01''] [])\<lparr>trace :=
        [Run [str ''sudo'', str ''ifconfig'', str ''eth0'', str ''down''],
         Log_error_exc (str ''Error changing MAC address'') (CalledProcessError 1)]\<rparr>)"
proof -
  let ?w = "session (str ''linux'') (always (Exited 1 (Utf8 [])))
        [str ''eth0_mac_backup.txt'' \<mapsto> str ''DE:AD:BE:EF:00:01''] []"
  have p: "startswith (platform ?w) (str ''linux'')"
    by (simp add: session_sel startswith_def)
  show ?thesis
    using get_os_linux [OF p]
    by (simp add: restore_mac_def read_text_def strip_mac validate_mac_DEAD change_mac_def
        check_output_def prog_defs Let_def session_sel always_def)
qed

text \<open>
  C4, amended. Restore never lets an exception escape. When the backup file cannot be read
  (it is missing, or opening or reading it fails) restore logs that error and returns; when
  its stripped contents are no valid address restore logs that and returns; in both cases
  nothing else happens. When the contents are valid, restore is the Mutator called with
  them, followed by the log line of the restore: whenever that call of the Mutator ends the
  process, restore ends the process with status 1, in the state the Mutator left. That is
  the only way restore ends the process.
\<close>

theorem restore_mac_outcome:
  "(\<forall>e. fst (restore_mac interface backup_file w) \<noteq> Raise e) \<and>
   (\<forall>e. fst (read_text backup_file w) = Raise e \<longrightarrow>
      restore_mac interface backup_file w =
        (Return (), w\<lparr>trace := trace w @
           [Log_error_exc (str ''Error restoring MAC address'') e]\<rparr>)) \<and>
   (\<forall>t. fst (read_text backup_file w) = Return t \<and> \<not> validate_mac (strip t) \<longrightarrow>
      restore_mac interface backup_file w =
        (Return (), w\<lparr>trace := trace w @
           [Log_error (str ''Invalid MAC address in backup file.'')]\<rparr>)) \<and>
   (\<forall>t. fst (read_text backup_file w) = Return t \<and> validate_mac (strip t) \<longrightarrow>
      restore_mac interface backup_file w =
        bind_p (change_mac interface (strip t))
          (\<lambda>_. logging_info (str ''Restored MAC address to '' @ strip t
                  @ str '' on '' @ interface @ str ''.'')) w \<and>
      (\<forall>c. fst (change_mac interface (strip t) w) = Exit c \<longrightarrow>
         restore_mac interface backup_file w =
           (Exit 1, snd (change_mac interface (strip t) w)))) \<and>
   (\<forall>c. fst (restore_mac interface backup_file w) = Exit c \<longrightarrow>
      c = 1 \<and> (\<exists>t. fst (read_text backup_file w) = Return t \<and> validate_mac (strip t) \<and>
                   fst (change_mac interface (strip t) w) = Exit 1))"
proof -
  have w: "snd (read_text backup_file w) = w"
    by (simp add: read_text_def split: option.splits)
  show ?thesis
  proof (cases "fst (read_text backup_file w)")
    case (Return t)
    then have rt: "read_text backup_file w = (Return t, w)"
      using w by (metis prod.collapse)
    show ?thesis
    proof (cases "validate_mac (strip t)")
      case False
      with rt Return show ?thesis
        by (simp add: restore_mac_def prog_defs)
    next
      case True
      let ?body = "bind_p (change_mac interface (strip t))
             (\<lambda>_. logging_info (str ''Restored MAC address to '' @ strip t
                     @ str '' on '' @ interface @ str ''.''))"
      have nr: "\<And>e. fst (?body w) \<noteq> Raise e"
        by (rule bind_no_raise) (simp_all add: change_mac_no_raise logging_info_no_raise)
      then have "except_Exception ?body
                   (\<lambda>e. logging_error_exc (str ''Error restoring MAC address'') e) w = ?body w"
        by (rule except_no_raise)
      moreover have "restore_mac interface backup_file w =
          except_Exception ?body
            (\<lambda>e. logging_error_exc (str ''Error restoring MAC address'') e) w"
        using rt True
        by (simp add: restore_mac_def except_Exception_def bind_p_def Let_def)
      ultimately have eq: "restore_mac interface backup_file w = ?body w" by simp
      have ex: "fst (change_mac interface (strip t) w) = Exit 1" if "fst (?body w) = Exit c" for c
        using that change_mac_exit [of interface "strip t" w]
        by (cases "change_mac interface (strip t) w")
           (auto simp: bind_p_def logging_info_def emit_def split: outcome.splits)
      have c1: "c = 1" if "fst (?body w) = Exit c" for c
        using that change_mac_exit [of interface "strip t" w c]
        by (cases "change_mac interface (strip t) w")
           (auto simp: bind_p_def logging_info_def emit_def split: outcome.splits)
      have fw: "?body w = (Exit 1, snd (change_mac interface (strip t) w))"
        if "fst (change_mac interface (strip t) w) = Exit c" for c
        using that change_mac_exit [of interface "strip t" w c]
        by (cases "change_mac interface (strip t) w") (simp add: bind_p_def)
      show ?thesis
      proof (intro conjI allI impI)
        fix e
        show "fst (restore_mac interface backup_file w) \<noteq> Raise e"
          using eq nr by simp
      next
        fix e
        assume "fst (read_text backup_file w) = Raise e"
        with Return show "restore_mac interface backup_file w =
          (Return (), w\<lparr>trace := trace w @
             [Log_error_exc (str ''Error restoring MAC address'') e]\<rparr>)"
          by simp
      next
        fix t'
        assume "fst (read_text backup_file w) = Return t' \<and> \<not> validate_mac (strip t')"
        with Return True show "restore_mac interface backup_file w =
          (Return (), w\<lparr>trace := trace w @
             [Log_error (str ''Invalid MAC address in backup file.'')]\<rparr>)"
          by simp
      next
        fix t'
        assume "fst (read_text backup_file w) = Return t' \<and> validate_mac (strip t')"
        with Return have "t' = t" by simp
        with eq show "restore_mac interface backup_file w =
          bind_p (change_mac interface (strip t'))
            (\<lambda>_. logging_info (str ''Restored MAC address to '' @ strip t'
                    @ str '' on '' @ interface @ str ''.'')) w"
          by simp
      next
        fix t' c
        assume "fst (read_text backup_file w) = Return t' \<and> validate_mac (strip t')"
          and x: "fst (change_mac interface (strip t') w) = Exit c"
        with Return have "t' = t" by simp
        with x eq fw [of c] show "restore_mac interface backup_file w =
          (Exit 1, snd (change_mac interface (strip t') w))"
          by simp
      next
        fix c
        assume "fst (restore_mac interface backup_file w) = Exit c"
        with eq have "fst (?body w) = Exit c" by simp
        from c1 [OF this] show "c = 1" .
      next
        fix c
        assume "fst (restore_mac interface backup_file w) = Exit c"
        with eq have "fst (?body w) = Exit c" by simp
        from ex [OF this] Return True
        show "\<exists>t. fst (read_text backup_file w) = Return t \<and> validate_mac (strip t) \<and>
                   fst (change_mac interface (strip t) w) = Exit 1"
          by blast
      qed
    qed
  next
    case (Raise e)
    then have rt: "read_text backup_file w = (Raise e, w)"
      using w by (metis prod.collapse)
    with Raise show ?thesis
      by (simp add: restore_mac_def prog_defs)
  next
    case (Exit c)
    then show ?thesis
      by (simp add: read_text_def split: option.splits)
  qed
qed

text \<open>
  A session without a backup file: restore logs the error of the open and returns. A
  session with a valid backup file in which \<open>sudo ifconfig eth0 down\<close> cannot be
  launched: the Mutator ends the process, and so does restore.
\<close>

theorem restore_mac_outcome_witness:
  "fst (read_text (str ''eth0_mac_backup.txt'')
          (session (str ''linux'') (always Launch_failed) Map.empty [])) = Raise FileNotFoundError \<and>
   restore_mac (str ''eth0'') (str ''eth0_mac_backup.txt'')
     (session (str ''linux'') (always Launch_failed) Map.empty []) =
     (Return (),
      (session (str ''linux'') (always Launch_failed) Map.empty [])\<lparr>trace :=
         [Log_error_exc (str ''Error restoring MAC address'') FileNotFoundError]\<rparr>) \<and>
   fst (read_text (str ''eth0_mac_backup.txt'')
          (session (str ''linux'') (always Launch_failed)
             [str ''eth0_mac_backup.txt'' \<mapsto> str ''DE:AD:BE:EF:00:01''] []))
     = Return (str ''DE:AD:BE:EF:00:01'') \<and>
   validate_mac (strip (str ''DE:AD:BE:EF:00:01'')) \<and>
   fst (change_mac (str ''eth0'') (strip (str ''DE:AD:BE:EF:00:01''))
          (session (str ''linux'') (always Launch_failed)
             [str ''eth0_mac_backup.txt'' \<mapsto> str ''DE:AD:BE:EF:00:01''] [])) = Exit 1 \<and>
   restore_mac (str ''eth0'') (str ''eth0_mac_backup.txt'')
     (session (str ''linux'') (always Launch_failed)
        [str ''eth0_mac_backup.txt'' \<mapsto> str ''DE:AD:BE:EF:00:01''] []) =
     (Exit 1,
      (session (str ''linux'') (always Launch_failed)
        [str ''eth0_mac_backup.txt'' \<mapsto> str ''DE:AD:BE:EF:00:01''] [])\<lparr>trace :=
         [Run [str ''sudo'', str ''ifconfig'', str ''eth0'', str ''down''],
          Log_error_exc (str ''Error changing MAC address'') OSError]\<rparr>)"
proof -
  let ?w = "session (str ''linux'') (always Launch_failed) Map.empty []"
  let ?v = "session (str ''linux'') (always Launch_failed)
        [str ''eth0_mac_backup.txt'' \<mapsto> str ''DE:AD:BE:EF:00:01''] []"
  have r: "fst (read_text (str ''eth0_mac_backup.txt'') ?w) = Raise FileNotFoundError"
    by (simp add: read_text_def session_sel)
  have r': "fst (read_text (str ''eth0_mac_backup.txt'') ?v) = Return (str ''DE:AD:BE:EF:00:01'')"
    by (simp add: read_text_def session_sel)
  have v: "validate_mac (strip (str ''DE:AD:BE:EF:00:01''))"
    by (simp add: strip_mac validate_mac_DEAD)
  have p: "startswith (platform ?v) (str ''linux'')"
    by (simp add: session_sel startswith_def)
  have c: "change_mac (str ''eth0'') (strip (str ''DE:AD:BE:EF:00:01'')) ?v =
             (Exit 1, ?v\<lparr>trace :=
                [Run [str ''sudo'', str ''ifconfig'', str ''eth0'', str ''down''],
                 Log_error_exc (str ''Error changing MAC address'') OSError]\<rparr>)"
    using get_os_linux [OF p]
    by (simp add: strip_mac change_mac_def check_output_def prog_defs session_sel always_def)
  have c': "fst (change_mac (str ''eth0'') (strip (str ''DE:AD:BE:EF:00:01'')) ?v) = Exit 1"
    by (simp add: c)
  note a = restore_mac_outcome [of "str ''eth0''" "str ''eth0_mac_backup.txt''" ?w,
      THEN conjunct2, THEN conjunct1, rule_format, OF r]
  note b = restore_mac_outcome [of "str ''eth0''" "str ''eth0_mac_backup.txt''" ?v,
      THEN conjunct2, THEN conjunct2, THEN conjunct2, THEN conjunct1, rule_format,
      OF conjI [OF r' v], THEN conjunct2, rule_format, OF c']
  have b': "restore_mac (str ''eth0'') (str ''eth0_mac_backup.txt'') ?v =
     (Exit 1, ?v\<lparr>trace :=
         [Run [str ''sudo'', str ''ifconfig'', str ''eth0'', str ''down''],
          Log_error_exc (str ''Error changing MAC address'') OSError]\<rparr>)"
    by (simp only: b c snd_conv)
  have a': "restore_mac (str ''eth0'') (str ''eth0_mac_backup.txt'') ?w =
     (Return (), ?w\<lparr>trace :=
         [Log_error_exc (str ''Error restoring MAC address'') FileNotFoundError]\<rparr>)"
    using a by (simp add: session_sel)
  from r a' r' v c' b' show ?thesis
    by (intro conjI)
qed

subsection \<open>C5\<close>

text \<open>
  C5. When the backup file can be read and its stripped contents fail validation, restore
  logs the error "Invalid MAC address in backup file." and returns: the log line is the
  only event, so no subprocess is run and the Mutator is not called.
\<close>

theorem restore_mac_invalid:
  assumes "files w backup_file = Some contents" and "read_error w backup_file = None"
    and "\<not> validate_mac (strip contents)"
  shows "restore_mac interface backup_file w =
           (Return (), w\<lparr>trace := trace w @
              [Log_error (str ''Invalid MAC address in backup file.'')]\<rparr>)"
  using assms by (simp add: restore_mac_def read_text_def prog_defs)

text \<open>An empty backup file.\<close>

theorem restore_mac_invalid_witness:
  "files (session (str ''linux'') (always Launch_failed) [str ''eth0_mac_backup.txt'' \<mapsto> []] [])
     (str ''eth0_mac_backup.txt'') = Some [] \<and>
   read_error (session (str ''linux'') (always Launch_failed) [str ''eth0_mac_backup.txt'' \<mapsto> []] [])
     (str ''eth0_mac_backup.txt'') = None \<and>
   \<not> validate_mac (strip []) \<and>
   restore_mac (str ''eth0'') (str ''eth0_mac_backup.txt'')
     (session (str ''linux'') (always Launch_failed) [str ''eth0_mac_backup.txt'' \<mapsto> []] []) =
     (Return (),
      (session (str ''linux'') (always Launch_failed) [str ''eth0_mac_backup.txt'' \<mapsto> []] [])
        \<lparr>trace := [Log_error (str ''Invalid MAC address in backup file.'')]\<rparr>)"
proof -
  let ?w = "session (str ''linux'') (always Launch_failed) [str ''eth0_mac_backup.txt'' \<mapsto> []] []"
  have f: "files ?w (str ''eth0_mac_backup.txt'') = Some []"
    by (simp add: session_sel)
  have r: "read_error ?w (str ''eth0_mac_backup.txt'') = None"
    by (simp add: session_sel)
  have v: "\<not> validate_mac (strip [])"
    by (simp add: strip_def validate_mac_def mac_pattern_def replicate_5)
  show ?thesis
    using f r v restore_mac_invalid [OF f r v, of "str ''eth0''"]
    by (simp add: session_sel)
qed

subsection \<open>C6\<close>

text \<open>
  C6. On Linux the Mutator calls, in this order, \<open>sudo ifconfig <interface> down\<close>,
  \<open>sudo ifconfig <interface> hw ether <address>\<close> and \<open>sudo ifconfig <interface> up\<close>.
  When all three succeed these are exactly its subprocess calls, followed by the log line
  of the change, and it returns. When one of them cannot be launched or exits with a status
  other than zero, no later command is called: the error is logged and the process ends
  with status 1, with nothing undone.
\<close>

theorem change_mac_linux:
  assumes "startswith (platform w) (str ''linux'')"
  shows "let down = [str ''sudo'', str ''ifconfig'', interface, str ''down''];
             hw = [str ''sudo'', str ''ifconfig'', interface, str ''hw'', str ''ether'', new_mac];
             up = [str ''sudo'', str ''ifconfig'', interface, str ''up''];
             t1 = trace w @ [Run down]; t2 = t1 @ [Run hw]; t3 = t2 @ [Run up];
             failed = (\<lambda>e t. (Exit 1, w\<lparr>trace := t @
                          [Log_error_exc (str ''Error changing MAC address'') e]\<rparr>))
         in change_mac interface new_mac w =
              (case call_failure (spawn w (trace w) down) of
                 Some e \<Rightarrow> failed e t1
               | None \<Rightarrow>
                  (case call_failure (spawn w t1 hw) of
                     Some e \<Rightarrow> failed e t2
                   | None \<Rightarrow>
                      (case call_failure (spawn w t2 up) of
                         Some e \<Rightarrow> failed e t3
                       | None \<Rightarrow>
                           (Return (), w\<lparr>trace := t3 @
                              [Log_info (str ''MAC address changed to '' @ new_mac @ str '' on ''
                                         @ interface @ str ''.'')]\<rparr>))))"
  using get_os_linux [OF assms]
  by (simp add: change_mac_def bind_p_def [of get_os] Let_def call_failure_def check_output_def
      prog_defs split: proc_result.splits)

text \<open>
  A Linux session where the second command, setting the address, exits with status 1: the
  interface has been brought down, \<open>up\<close> is never called, and the process ends.
\<close>

theorem change_mac_linux_witness:
  "startswith (platform (session (str ''linux'') second_fails Map.empty [])) (str ''linux'') \<and>
   change_mac (str ''eth0'') (str ''AA:BB:CC:11:22:33'')
     (session (str ''linux'') second_fails Map.empty []) =
     (Exit 1,
      (session (str ''linux'') second_fails Map.empty [])\<lparr>trace :=
        [Run [str ''sudo'', str ''ifconfig'', str ''eth0'', str ''down''],
         Run [str ''sudo'', str ''ifconfig'', str ''eth0'', str ''hw'', str ''ether'',
              str ''AA:BB:CC:11:22:33''],
         Log_error_exc (str ''Error changing MAC address'') (CalledProcessError 1)]\<rparr>)"
proof -
  let ?w = "session (str ''linux'') second_fails Map.empty []"
  have p: "startswith (platform ?w) (str ''linux'')"
    by (simp add: session_sel startswith_def)
  show ?thesis
    using p change_mac_linux [OF p, of "str ''eth0''" "str ''AA:BB:CC:11:22:33''"]
    by (simp add: Let_def call_failure_def session_sel second_fails_def)
qed

subsection \<open>C7\<close>

text \<open>
  C7. In a session on Linux or macOS whose effective user is not the superuser, the
  program logs that it needs root privileges and ends with status 1. That log line is its
  only event: no subprocess is run, so no command that changes a MAC address is.
\<close>

theorem main_not_root:
  assumes "startswith (platform w) (str ''linux'') \<or> startswith (platform w) (str ''darwin'')"
    and "euid w \<noteq> 0"
  shows "main w = (Exit 1, w\<lparr>trace := trace w @
           [Log_error (str ''This script requires root privileges. Please run with sudo.'')]\<rparr>)"
  using assms by (simp add: main_def check_permissions_def prog_defs)

text \<open>The user with id 1000 on macOS, with input ready and commands that would succeed.\<close>

theorem main_not_root_witness:
  "(startswith (platform ((session (str ''darwin'') (always (Exited 0 (Utf8 (str ''en0: ''))))
        Map.empty [str ''1'', str ''AA:BB:CC:11:22:33'', str ''n''])\<lparr>euid := 1000\<rparr>)) (str ''linux'') \<or>
    startswith (platform ((session (str ''darwin'') (always (Exited 0 (Utf8 (str ''en0: ''))))
        Map.empty [str ''1'', str ''AA:BB:CC:11:22:33'', str ''n''])\<lparr>euid := 1000\<rparr>)) (str ''darwin'')) \<and>
   euid ((session (str ''darwin'') (always (Exited 0 (Utf8 (str ''en0: ''))))
        Map.empty [str ''1'', str ''AA:BB:CC:11:22:33'', str ''n''])\<lparr>euid := 1000\<rparr>) \<noteq> 0 \<and>
   main ((session (str ''darwin'') (always (Exited 0 (Utf8 (str ''en0: ''))))
        Map.empty [str ''1'', str ''AA:BB:CC:11:22:33'', str ''n''])\<lparr>euid := 1000\<rparr>) =
     (Exit 1,
      (session (str ''darwin'') (always (Exited 0 (Utf8 (str ''en0: ''))))
        Map.empty [str ''1'', str ''AA:BB:CC:11:22:33'', str ''n''])\<lparr>euid := 1000, trace :=
          [Log_error (str ''This script requires root privileges. Please run with sudo.'')]\<rparr>)"
proof -
  let ?w = "(session (str ''darwin'') (always (Exited 0 (Utf8 (str ''en0: ''))))
        Map.empty [str ''1'', str ''AA:BB:CC:11:22:33'', str ''n''])\<lparr>euid := 1000\<rparr>"
  have p: "startswith (platform ?w) (str ''linux'') \<or> startswith (platform ?w) (str ''darwin'')"
    by (simp add: session_sel startswith_def)
  have u: "euid ?w \<noteq> 0"
    by simp
  show ?thesis
    using p u main_not_root [OF p u]
    by (simp add: session_sel)
qed

subsection \<open>C8\<close>

text \<open>
  C8. When the MAC Reader returns the absent value, backup logs
  "Failed to backup MAC address." and returns normally. No file is created or changed
  (the files are those from before the backup), and whatever the orchestrator does next
  is run, in the state that backup leaves.
\<close>

theorem backup_mac_absent:
  assumes "get_current_mac interface w = (Return None, w')"
  shows "backup_mac interface backup_file w =
           (Return (), w'\<lparr>trace := trace w' @ [Log_error (str ''Failed to backup MAC address.'')]\<rparr>) \<and>
         files (snd (backup_mac interface backup_file w)) = files w \<and>
         bind_p (backup_mac interface backup_file) next_step w =
           next_step () (w'\<lparr>trace := trace w' @ [Log_error (str ''Failed to backup MAC address.'')]\<rparr>)"
proof -
  have b: "backup_mac interface backup_file w =
           (Return (), w'\<lparr>trace := trace w' @ [Log_error (str ''Failed to backup MAC address.'')]\<rparr>)"
    using assms by (simp add: backup_mac_def prog_defs)
  with get_current_mac_files(1) [OF assms] show ?thesis
    by (simp add: bind_p_def)
qed

text \<open>
  A Linux session in which \<open>ifconfig eth0\<close> prints no \<open>ether\<close> field: the Reader finds
  nothing, and an older backup file stays as it was.
\<close>

theorem backup_mac_absent_witness:
  "get_current_mac (str ''eth0'')
     (session (str ''linux'') (always (Exited 0 (Utf8 (str ''eth0: no address''))))
        [str ''eth0_mac_backup.txt'' \<mapsto> str ''11:22:33:44:55:66''] []) =
     (Return None,
      (session (str ''linux'') (always (Exited 0 (Utf8 (str ''eth0: no address''))))
        [str ''eth0_mac_backup.txt'' \<mapsto> str ''11:22:33:44:55:66''] [])
        \<lparr>trace := [Run [str ''ifconfig'', str ''eth0'']]\<rparr>) \<and>
   backup_mac (str ''eth0'') (str ''eth0_mac_backup.txt'')
     (session (str ''linux'') (always (Exited 0 (Utf8 (str ''eth0: no address''))))
        [str ''eth0_mac_backup.txt'' \<mapsto> str ''11:22:33:44:55:66''] []) =
     (Return (),
      (session (str ''linux'') (always (Exited 0 (Utf8 (str ''eth0: no address''))))
        [str ''eth0_mac_backup.txt'' \<mapsto> str ''11:22:33:44:55:66''] [])
        \<lparr>trace := [Run [str ''ifconfig'', str ''eth0''],
                   Log_error (str ''Failed to backup MAC address.'')]\<rparr>)"
proof -
  let ?w = "session (str ''linux'') (always (Exited 0 (Utf8 (str ''eth0: no address''))))
        [str ''eth0_mac_backup.txt'' \<mapsto> str ''11:22:33:44:55:66''] []"
  have p: "startswith (platform ?w) (str ''linux'')"
    by (simp add: session_sel startswith_def)
  have s: "ether_search (str ''eth0: no address'') = None"
    by (simp add: ether_search_def str_def lit_def)
  have g: "get_current_mac (str ''eth0'') ?w =
             (Return None, ?w\<lparr>trace := [Run [str ''ifconfig'', str ''eth0'']]\<rparr>)"
    using get_os_linux [OF p]
    by (simp add: get_current_mac_def check_output_def prog_defs session_sel always_def s)
  show ?thesis
    using g backup_mac_absent [OF g, where backup_file = "str ''eth0_mac_backup.txt''",
        THEN conjunct1]
    by simp
qed

subsection \<open>C9\<close>

text \<open>
  C9, as the claim states it, fails: the Reader takes the first 17 characters in a row that
  are hexadecimal digits or separators, whatever their grouping. For the connection
  \<open>Ethernet\<close> on Windows and a row of \<open>getmac\<close> without an address, it takes the start of
  the device identifier, and backup writes \<open>4D36E972:E325:11C\<close> to the file.
\<close>

theorem backup_mac_not_canonical_counterexample:
  "files (snd (backup_mac (str ''Ethernet'') (str ''Ethernet_mac_backup.txt'')
            (session (str ''win32'') (always (Exited 0 (Utf8 getmac_row))) Map.empty [])))
     (str ''Ethernet_mac_backup.txt'') = Some (str ''4D36E972:E325:11C'') \<and>
   \<not> canonical_mac (str ''4D36E972:E325:11C'') \<and>
   \<not> validate_mac (str ''4D36E972:E325:11C'')"
proof -
  let ?w = "session (str ''win32'') (always (Exited 0 (Utf8 getmac_row))) Map.empty []"
  have "files (snd (backup_mac (str ''Ethernet'') (str ''Ethernet_mac_backup.txt'') ?w))
          (str ''Ethernet_mac_backup.txt'') = Some (str ''4D36E972:E325:11C'')"
    using getmac_row_reader
    by (simp add: backup_mac_def open_w_def write_close_def prog_defs session_sel)
       (simp add: str_def)
  moreover have "\<not> canonical_mac (str ''4D36E972:E325:11C'')"
    by (simp add: canonical_mac_def str_def class_defs replicate_5)
  moreover have "\<not> validate_mac (str ''4D36E972:E325:11C'')"
    by (simp add: validate_mac_def mac_pattern_def str_def class_defs replicate_5)
  ultimately show ?thesis by simp
qed

text \<open>
  C9, amended. When the MAC Reader extracts a value and the backup file is opened and
  written without an error, the file holds exactly that value afterwards, with nothing
  before or after it: a string of 17 characters, and when these are ASCII characters each
  of them is a hexadecimal digit \<open>0-9\<close>, \<open>a-f\<close>, \<open>A-F\<close> or a colon. Backup does not
  check how they are grouped.
\<close>

theorem backup_mac_content:
  assumes "get_current_mac interface w = (Return (Some m), w')"
    and "open_w_error w backup_file = None"
    and "write_fault w backup_file m = None"
  shows "files (snd (backup_mac interface backup_file w)) backup_file = Some m \<and>
         length m = 17 \<and>
         (list_all (\<lambda>c. c < 128) m \<longrightarrow> list_all (\<lambda>c. ascii_hex c \<or> c = 58) m)"
proof -
  from get_current_mac_shape [OF assms(1)] have sh: "length m = 17" "list_all re_hex_colon m"
    by simp_all
  then have "m \<noteq> []" by auto
  moreover note get_current_mac_files [OF assms(1)]
  ultimately have "files (snd (backup_mac interface backup_file w)) backup_file = Some m"
    using assms by (simp add: backup_mac_def open_w_def write_close_def prog_defs)
  moreover have "list_all (\<lambda>c. ascii_hex c \<or> c = 58) m" if "list_all (\<lambda>c. c < 128) m"
    using that sh(2) re_hex_ascii by (auto simp: list_all_iff re_hex_colon_def)
  ultimately show ?thesis
    using sh(1) by simp
qed

text \<open>The Windows row above: the stored value has 17 ASCII characters of the class.\<close>

theorem backup_mac_content_witness:
  "get_current_mac (str ''Ethernet'')
      (session (str ''win32'') (always (Exited 0 (Utf8 getmac_row))) Map.empty []) =
     (Return (Some (str ''4D36E972:E325:11C'')),
      (session (str ''win32'') (always (Exited 0 (Utf8 getmac_row))) Map.empty [])
        \<lparr>trace := [Run [str ''getmac'', str ''/FO'', str ''CSV'', str ''/V'']]\<rparr>) \<and>
   open_w_error (session (str ''win32'') (always (Exited 0 (Utf8 getmac_row))) Map.empty [])
     (str ''Ethernet_mac_backup.txt'') = None \<and>
   write_fault (session (str ''win32'') (always (Exited 0 (Utf8 getmac_row))) Map.empty [])
     (str ''Ethernet_mac_backup.txt'') (str ''4D36E972:E325:11C'') = None \<and>
   list_all (\<lambda>c. c < 128) (str ''4D36E972:E325:11C'') \<and>
   files (snd (backup_mac (str ''Ethernet'') (str ''Ethernet_mac_backup.txt'')
            (session (str ''win32'') (always (Exited 0 (Utf8 getmac_row))) Map.empty [])))
     (str ''Ethernet_mac_backup.txt'') = Some (str ''4D36E972:E325:11C'') \<and>
   length (str ''4D36E972:E325:11C'') = 17 \<and>
   list_all (\<lambda>c. ascii_hex c \<or> c = 58) (str ''4D36E972:E325:11C'')"
proof -
  let ?w = "session (str ''win32'') (always (Exited 0 (Utf8 getmac_row))) Map.empty []"
  note g = getmac_row_reader
  have o: "open_w_error ?w (str ''Ethernet_mac_backup.txt'') = None"
    by (simp add: session_sel)
  have f: "write_fault ?w (str ''Ethernet_mac_backup.txt'') (str ''4D36E972:E325:11C'') = None"
    by (simp add: session_sel)
  have a: "list_all (\<lambda>c. c < 128) (str ''4D36E972:E325:11C'')"
    by (simp add: str_def)
  show ?thesis
    using g o f a backup_mac_content [OF g o f]
    by simp
qed

subsection \<open>C10\<close>

text \<open>
  C10, as the claim states it, fails: when the backup file cannot be opened for writing,
  the error of the open leaves \<open>backup_mac\<close>, and the file keeps the address that an
  earlier run saved, although the Reader returned a present value.
\<close>

theorem backup_mac_open_fails_counterexample:
  "backup_mac (str ''eth0'') (str ''eth0_mac_backup.txt'')
     ((eth0_session [])\<lparr>open_w_error := (\<lambda>path. Some PermissionError),
        files := [str ''eth0_mac_backup.txt'' \<mapsto> str ''11:22:33:44:55:66'']\<rparr>) =
     (Raise PermissionError,
      (eth0_session [])\<lparr>open_w_error := (\<lambda>path. Some PermissionError),
        files := [str ''eth0_mac_backup.txt'' \<mapsto> str ''11:22:33:44:55:66''],
        trace := [Run [str ''ifconfig'', str ''eth0'']]\<rparr>) \<and>
   files (snd (backup_mac (str ''eth0'') (str ''eth0_mac_backup.txt'')
     ((eth0_session [])\<lparr>open_w_error := (\<lambda>path. Some PermissionError),
        files := [str ''eth0_mac_backup.txt'' \<mapsto> str ''11:22:33:44:55:66'']\<rparr>)))
     (str ''eth0_mac_backup.txt'') = Some (str ''11:22:33:44:55:66'')"
proof -
  let ?w = "(eth0_session [])\<lparr>open_w_error := (\<lambda>path. Some PermissionError),
        files := [str ''eth0_mac_backup.txt'' \<mapsto> str ''11:22:33:44:55:66'']\<rparr>"
  have g: "get_current_mac (str ''eth0'') ?w =
             (Return (Some (str ''AA:BB:CC:DD:EE:FF'')),
              ?w\<lparr>trace := [Run [str ''ifconfig'', str ''eth0'']]\<rparr>)"
    by (simp add: eth0_get_current_mac eth0_session_sel)
  have n: "str ''AA:BB:CC:DD:EE:FF'' \<noteq> []"
    by (simp add: str_def)
  have "backup_mac (str ''eth0'') (str ''eth0_mac_backup.txt'') ?w =
          (Raise PermissionError, ?w\<lparr>trace := [Run [str ''ifconfig'', str ''eth0'']]\<rparr>)"
    by (simp add: backup_mac_def bind_p_def [of "get_current_mac _"] g n)
       (simp add: open_w_def bind_p_def)
  then show ?thesis by simp
qed

text \<open>
  C10, amended. When the MAC Reader returns a present value and the backup file can be
  opened for writing, the file is truncated whatever it held before (and whether it
  existed): an address saved by an earlier run is gone. When the write succeeds as well,
  the file holds exactly the value of the Reader, and backup logs that and returns; when
  the write fails, the file holds only the part of that value that reached it.
\<close>

theorem backup_mac_overwrites:
  assumes "get_current_mac interface w = (Return (Some m), w')"
    and "open_w_error w backup_file = None"
  shows "(write_fault w backup_file m = None \<longrightarrow>
            backup_mac interface backup_file w =
              (Return (), w'\<lparr>files := (files w)(backup_file \<mapsto> m),
                 trace := trace w' @ [Log_info (str ''Backed up MAC address '' @ m @ str '' to ''
                                                @ backup_file @ str ''.'')]\<rparr>) \<and>
            files (snd (backup_mac interface backup_file w)) backup_file = Some m) \<and>
         (\<forall>e n. write_fault w backup_file m = Some (e, n) \<longrightarrow>
            backup_mac interface backup_file w =
              (Raise e, w'\<lparr>files := (files w)(backup_file \<mapsto> take n m)\<rparr>) \<and>
            files (snd (backup_mac interface backup_file w)) backup_file = Some (take n m))"
proof -
  from get_current_mac_shape [OF assms(1)] have "m \<noteq> []" by auto
  moreover note get_current_mac_files [OF assms(1)]
  ultimately show ?thesis
    using assms by (simp add: backup_mac_def open_w_def write_close_def prog_defs)
qed

text \<open>
  A Linux session in which \<open>eth0_mac_backup.txt\<close> holds \<open>11:22:33:44:55:66\<close> from an
  earlier run, \<open>ifconfig eth0\<close> now reports \<open>AA:BB:CC:DD:EE:FF\<close>, and the file can be
  opened and written.
\<close>

theorem backup_mac_overwrites_witness:
  "get_current_mac (str ''eth0'')
     ((eth0_session [])\<lparr>files := [str ''eth0_mac_backup.txt'' \<mapsto> str ''11:22:33:44:55:66'']\<rparr>) =
     (Return (Some (str ''AA:BB:CC:DD:EE:FF'')),
      (eth0_session [])\<lparr>files := [str ''eth0_mac_backup.txt'' \<mapsto> str ''11:22:33:44:55:66''],
         trace := [Run [str ''ifconfig'', str ''eth0'']]\<rparr>) \<and>
   open_w_error
     ((eth0_session [])\<lparr>files := [str ''eth0_mac_backup.txt'' \<mapsto> str ''11:22:33:44:55:66'']\<rparr>)
     (str ''eth0_mac_backup.txt'') = None \<and>
   write_fault
     ((eth0_session [])\<lparr>files := [str ''eth0_mac_backup.txt'' \<mapsto> str ''11:22:33:44:55:66'']\<rparr>)
     (str ''eth0_mac_backup.txt'') (str ''AA:BB:CC:DD:EE:FF'') = None \<and>
   files (snd (backup_mac (str ''eth0'') (str ''eth0_mac_backup.txt'')
     ((eth0_session [])\<lparr>files := [str ''eth0_mac_backup.txt'' \<mapsto> str ''11:22:33:44:55:66'']\<rparr>)))
     (str ''eth0_mac_backup.txt'') = Some (str ''AA:BB:CC:DD:EE:FF'')"
proof -
  let ?w = "(eth0_session [])\<lparr>files := [str ''eth0_mac_backup.txt'' \<mapsto> str ''11:22:33:44:55:66'']\<rparr>"
  have g: "get_current_mac (str ''eth0'') ?w =
             (Return (Some (str ''AA:BB:CC:DD:EE:FF'')),
              (eth0_session [])\<lparr>files := [str ''eth0_mac_backup.txt'' \<mapsto> str ''11:22:33:44:55:66''],
                 trace := [Run [str ''ifconfig'', str ''eth0'']]\<rparr>)"
    by (simp add: eth0_get_current_mac eth0_session_sel)
  have o: "open_w_error ?w (str ''eth0_mac_backup.txt'') = None"
    by (simp add: eth0_session_sel)
  have f: "write_fault ?w (str ''eth0_mac_backup.txt'') (str ''AA:BB:CC:DD:EE:FF'') = None"
    by (simp add: eth0_session_sel)
  note t = backup_mac_overwrites [OF g o, THEN conjunct1, rule_format, OF f, THEN conjunct2]
  from g o f t show ?thesis
    by (intro conjI)
qed

end
